theory Spec2Isabelle
  imports Main "HOL-Library.Sublist" "HOL-Library.Char_ord" "HOL-Library.List_Lexorder"
    "HOL-Library.Multiset"
begin

section \<open>Data model\<close>

text \<open>
  JavaScript strings are modelled as \<^typ>\<open>string\<close>: one \<^typ>\<open>char\<close> stands for one
  UTF-16 code unit, so \<^term>\<open>length\<close> is the \<^verbatim>\<open>.length\<close> of the source (only the code
  units below 256 have a counterpart in the model). The columns \<^verbatim>\<open>createdAt\<close>,
  \<^verbatim>\<open>updatedAt\<close> and \<^verbatim>\<open>timestamp\<close> are \<^verbatim>\<open>TEXT\<close>: SQLite compares them
  byte by byte, a proper prefix first, which is the lexicographic order on \<^typ>\<open>string\<close>.

  \<^verbatim>\<open>ConversationData\<close> and \<^verbatim>\<open>MessageData\<close> (conversationService.ts); the fields carry
  a prefix because both interfaces have an \<^verbatim>\<open>id\<close>.
\<close>

datatype Sender = User | Ai

record ConversationData =
  c_id :: string
  c_createdAt :: string
  c_updatedAt :: string

record MessageData =
  m_id :: string
  m_conversationId :: string
  m_sender :: Sender
  m_text :: string
  m_timestamp :: string

text \<open>
  The two tables of database.ts, each a list of rows in insertion order. The schema is
  kept by the operations below: \<^verbatim>\<open>id TEXT PRIMARY KEY\<close> on both tables and
  \<^verbatim>\<open>FOREIGN KEY (conversationId) REFERENCES conversations(id)\<close> with
  \<^verbatim>\<open>foreign_keys = ON\<close>. The \<^verbatim>\<open>CHECK(sender IN ('user', 'ai'))\<close> and the
  \<^verbatim>\<open>NOT NULL\<close> constraints hold by typing.
\<close>

record Database =
  conversations :: "ConversationData list"
  messages :: "MessageData list"

definition emptyDatabase :: Database where
  "emptyDatabase = \<lparr>conversations = [], messages = []\<rparr>"

text \<open>A statement that violates a constraint throws and leaves the tables as they were.\<close>

datatype SqliteError = ConstraintPrimaryKey | ConstraintForeignKey

section \<open>ConversationService\<close>

text \<open>
  \<^verbatim>\<open>randomUUID()\<close> and \<^verbatim>\<open>new Date().toISOString()\<close> are read from the environment;
  every operation that calls them takes their results as its first two arguments.
\<close>

definition createConversation ::
  "string \<Rightarrow> string \<Rightarrow> Database \<Rightarrow> SqliteError + (Database \<times> ConversationData)" where
  "createConversation uuid now db =
     (if uuid \<in> set (map c_id (conversations db)) then Inl ConstraintPrimaryKey
      else let row = \<lparr>c_id = uuid, c_createdAt = now, c_updatedAt = now\<rparr>
           in Inr (db\<lparr>conversations := conversations db @ [row]\<rparr>, row))"

definition getConversation :: "Database \<Rightarrow> string \<Rightarrow> ConversationData option" where
  "getConversation db conversationId =
     find (\<lambda>c. c_id c = conversationId) (conversations db)"

text \<open>
  \<^verbatim>\<open>if (conversationId)\<close> is false for \<^verbatim>\<open>undefined\<close> and for the empty string; a row
  that was found is an object, hence truthy.
\<close>

definition getOrCreateConversation ::
  "string \<Rightarrow> string \<Rightarrow> Database \<Rightarrow> string option \<Rightarrow> SqliteError + (Database \<times> ConversationData)" where
  "getOrCreateConversation uuid now db conversationId =
     (case conversationId of
        None \<Rightarrow> createConversation uuid now db
      | Some cid \<Rightarrow>
          if cid = [] then createConversation uuid now db
          else (case getConversation db cid of
                  Some existing \<Rightarrow> Inr (db, existing)
                | None \<Rightarrow> createConversation uuid now db))"

text \<open>
  \<^verbatim>\<open>addMessage\<close>: the \<^verbatim>\<open>INSERT\<close> checks the primary key and the foreign key; the
  \<^verbatim>\<open>UPDATE\<close> that follows rewrites \<^verbatim>\<open>updatedAt\<close> in every row with the given id.
\<close>

definition addMessage ::
  "string \<Rightarrow> string \<Rightarrow> Database \<Rightarrow> string \<Rightarrow> Sender \<Rightarrow> string \<Rightarrow> SqliteError + (Database \<times> MessageData)" where
  "addMessage uuid timestamp db conversationId sender text' =
     (if uuid \<in> set (map m_id (messages db)) then Inl ConstraintPrimaryKey
      else if conversationId \<notin> set (map c_id (conversations db)) then Inl ConstraintForeignKey
      else let row = \<lparr>m_id = uuid, m_conversationId = conversationId, m_sender = sender,
                       m_text = text', m_timestamp = timestamp\<rparr>
           in Inr (db\<lparr>messages := messages db @ [row],
                      conversations :=
                        map (\<lambda>c. if c_id c = conversationId then c\<lparr>c_updatedAt := timestamp\<rparr> else c)
                          (conversations db)\<rparr>,
                   row))"

text \<open>
  \<^verbatim>\<open>SELECT * FROM messages WHERE conversationId = ? ORDER BY timestamp ASC\<close>; rows with
  equal timestamps stay in insertion order.
\<close>

definition getMessages :: "Database \<Rightarrow> string \<Rightarrow> MessageData list" where
  "getMessages db conversationId =
     sort_key m_timestamp (filter (\<lambda>m. m_conversationId m = conversationId) (messages db))"

section \<open>LLMService\<close>

text \<open>
  A thrown JavaScript value, as far as the \<^verbatim>\<open>catch\<close> block of \<^verbatim>\<open>generateReply\<close> reads
  it: its \<^verbatim>\<open>message\<close> and its \<^verbatim>\<open>code\<close>, each possibly \<^verbatim>\<open>undefined\<close>.
  \<^verbatim>\<open>new Error(msg)\<close> has the message and no code.
\<close>

datatype JsError = JsError (err_message: "string option") (err_code: "string option")

definition Error :: "string \<Rightarrow> JsError" where
  "Error msg = JsError (Some msg) None"

text \<open>
  The provider: \<^verbatim>\<open>this.model.generateContent(prompt)\<close> followed by
  \<^verbatim>\<open>result.response.text()\<close> either yields a text or throws.
\<close>

datatype ProviderOutcome = Responds string | Throws JsError

definition MAX_MESSAGE_LENGTH :: nat where
  "MAX_MESSAGE_LENGTH = 2000"

definition MAX_HISTORY_MESSAGES :: nat where
  "MAX_HISTORY_MESSAGES = 10"

definition DOMAIN_KNOWLEDGE :: string where
  "DOMAIN_KNOWLEDGE =
     ''\<newline>'' @
     ''You are a helpful and friendly customer support agent for \"SpurStore\", a small e-commerce store. \<newline>'' @
     ''Here's important information about our store:\<newline>'' @
     ''\<newline>'' @
     ''SHIPPING POLICY:\<newline>'' @
     ''- We ship worldwide via standard shipping (5-7 business days) and express shipping (2-3 business days)\<newline>'' @
     ''- Standard shipping: $5.99 (free for orders over $50)\<newline>'' @
     ''- Express shipping: $12.99\<newline>'' @
     ''- We ship to USA, Canada, UK, Australia, and most European countries\<newline>'' @
     ''- Orders are processed within 1-2 business days\<newline>'' @
     ''\<newline>'' @
     ''RETURN/REFUND POLICY:\<newline>'' @
     ''- 30-day return policy for unused items in original packaging\<newline>'' @
     ''- Full refunds are processed within 5-7 business days after we receive the item\<newline>'' @
     ''- Customers are responsible for return shipping costs unless the item is defective\<newline>'' @
     ''- Refunds are issued to the original payment method\<newline>'' @
     ''\<newline>'' @
     ''SUPPORT HOURS:\<newline>'' @
     ''- Monday to Friday: 9 AM - 6 PM EST\<newline>'' @
     ''- Saturday: 10 AM - 4 PM EST\<newline>'' @
     ''- Sunday: Closed\<newline>'' @
     ''- Email support: support@spurstore.com\<newline>'' @
     ''- Response time: Within 24 hours during business hours\<newline>'' @
     ''\<newline>'' @
     ''PRODUCT INFORMATION:\<newline>'' @
     ''- We offer a wide range of products including electronics, clothing, home goods, and accessories\<newline>'' @
     ''- Most items are in stock and ready to ship\<newline>'' @
     ''- We offer gift wrapping and gift messages for orders\<newline>'' @
     ''\<newline>'' @
     ''IMPORTANT GUIDELINES:\<newline>'' @
     ''- Answer customer questions clearly, concisely, and in a friendly tone using ONLY the information provided above.\<newline>'' @
     ''- Format your responses using markdown for better readability:\<newline>'' @
     ''  * Use bullet points (- or *) for lists\<newline>'' @
     ''  * Use **bold** for important information\<newline>'' @
     ''  * Use line breaks to separate different topics\<newline>'' @
     ''  * Keep paragraphs short and easy to read\<newline>'' @
     ''- If a customer asks about something NOT covered in the knowledge base above (e.g., specific product details, pricing for individual items, technical specifications, order status, account issues, payment problems, or questions unrelated to our store policies), politely acknowledge that you don't have that specific information.\<newline>'' @
     ''- For out-of-scope questions, respond with: \"I don't have that specific information in my knowledge base, but I'd be happy to connect you with our human support team who can help you with that. Please email us at support@spurstore.com or contact us during our support hours.\"\<newline>'' @
     ''- Stay focused on shipping, returns, support hours, and general product information as outlined above.\<newline>'' @
     ''- Never make up information or guess about details not provided in the knowledge base.\<newline>'' @
     ''- Always maintain a helpful and professional tone, even when redirecting to human support.\<newline>'' @
     ''- When listing multiple items or topics, use markdown bullet points for clarity.\<newline>''"

text \<open>
  \<^verbatim>\<open>String.prototype.trim\<close> removes white space and line terminators from both ends;
  below code unit 256 these are U+0009 to U+000D, U+0020 and U+00A0.
\<close>

definition isWhiteSpace :: "char \<Rightarrow> bool" where
  "isWhiteSpace c \<longleftrightarrow>
     c \<in> set [CHR 0x09, CHR 0x0A, CHR 0x0B, CHR 0x0C, CHR 0x0D, CHR 0x20, CHR 0xA0]"

definition trim :: "string \<Rightarrow> string" where
  "trim s = rev (dropWhile isWhiteSpace (rev (dropWhile isWhiteSpace s)))"

text \<open>\<^verbatim>\<open>s.includes(sub)\<close>: \<^verbatim>\<open>sub\<close> occurs in \<^verbatim>\<open>s\<close> as a contiguous run.\<close>

fun string_includes :: "string \<Rightarrow> string \<Rightarrow> bool" where
  "string_includes [] sub = (sub = [])"
| "string_includes (c # cs) sub = (prefix sub (c # cs) \<or> string_includes cs sub)"

text \<open>\<^verbatim>\<open>lines.join(sep)\<close>.\<close>

fun join :: "string \<Rightarrow> string list \<Rightarrow> string" where
  "join sep [] = []"
| "join sep [x] = x"
| "join sep (x # y # ys) = x @ sep @ join sep (y # ys)"

text \<open>
  The steps of \<^verbatim>\<open>generateReply\<close>, named after the local variables of the source:
  \<^verbatim>\<open>userMessage\<close> after the length check, \<^verbatim>\<open>recentHistory\<close>
  (\<^verbatim>\<open>conversationHistory.slice(-MAX_HISTORY_MESSAGES)\<close>), \<^verbatim>\<open>historyText\<close> and
  \<^verbatim>\<open>prompt\<close>.
\<close>

definition truncated :: "string \<Rightarrow> string" where
  "truncated userMessage =
     (if length userMessage > MAX_MESSAGE_LENGTH
      then take MAX_MESSAGE_LENGTH userMessage @ ''...''
      else userMessage)"

definition recentHistory :: "MessageData list \<Rightarrow> MessageData list" where
  "recentHistory conversationHistory =
     drop (length conversationHistory - MAX_HISTORY_MESSAGES) conversationHistory"

definition renderTurn :: "MessageData \<Rightarrow> string" where
  "renderTurn msg =
     (let role = (if m_sender msg = User then ''Customer'' else ''Support Agent'')
      in role @ '': '' @ m_text msg)"

definition historyText :: "MessageData list \<Rightarrow> string" where
  "historyText conversationHistory =
     join ''\<newline>'' (map renderTurn (recentHistory conversationHistory))"

definition prompt :: "string \<Rightarrow> MessageData list \<Rightarrow> string" where
  "prompt userMessage conversationHistory =
     DOMAIN_KNOWLEDGE @ ''\<newline>\<newline>Previous conversation:\<newline>'' @
     (if historyText conversationHistory = [] then ''This is the start of the conversation.''
      else historyText conversationHistory) @
     ''\<newline>\<newline>Customer: '' @ userMessage @ ''\<newline>Support Agent:''"

text \<open>The body of the \<^verbatim>\<open>try\<close> block: \<^term>\<open>Inl\<close> is the value thrown inside it.\<close>

definition generateReply_try ::
  "(string \<Rightarrow> ProviderOutcome) \<Rightarrow> string \<Rightarrow> MessageData list \<Rightarrow> JsError + string" where
  "generateReply_try model userMessage conversationHistory =
     (if userMessage = [] \<or> length (trim userMessage) = 0
      then Inl (Error ''Message cannot be empty'')
      else (case model (prompt (truncated userMessage) conversationHistory) of
              Throws e \<Rightarrow> Inl e
            | Responds text' \<Rightarrow>
                let reply = trim text'
                in if reply = [] \<or> length reply = 0
                   then Inl (Error ''Empty response from LLM'')
                   else Inr reply))"

text \<open>
  The \<^verbatim>\<open>catch\<close> block: what is thrown to the caller for a value thrown in the
  \<^verbatim>\<open>try\<close> block. \<^verbatim>\<open>error.message?.includes(s)\<close> is false when there is no message.
\<close>

definition message_includes :: "JsError \<Rightarrow> string \<Rightarrow> bool" where
  "message_includes error s =
     (case err_message error of None \<Rightarrow> False | Some m \<Rightarrow> string_includes m s)"

definition generateReply_catch :: "JsError \<Rightarrow> JsError" where
  "generateReply_catch error =
     (if message_includes error ''API_KEY''
      then Error ''Invalid API key. Please check your GEMINI_API_KEY environment variable.''
      else if message_includes error ''quota'' \<or> message_includes error ''rate limit''
      then Error ''API rate limit exceeded. Please try again in a moment.''
      else if message_includes error ''timeout'' \<or> err_code error = Some ''ETIMEDOUT''
      then Error ''Request timed out. Please try again.''
      else Error (case err_message error of
                    None \<Rightarrow> ''Failed to generate reply. Please try again later.''
                  | Some m \<Rightarrow>
                      if m = [] then ''Failed to generate reply. Please try again later.''
                      else m))"

definition generateReply ::
  "(string \<Rightarrow> ProviderOutcome) \<Rightarrow> string \<Rightarrow> MessageData list \<Rightarrow> JsError + string" where
  "generateReply model userMessage conversationHistory =
     (case generateReply_try model userMessage conversationHistory of
        Inl error \<Rightarrow> Inl (generateReply_catch error)
      | Inr reply \<Rightarrow> Inr reply)"

text \<open>
  The exported \<^verbatim>\<open>llmService.generateReply\<close> constructs the service on first use; the
  constructor throws when \<^verbatim>\<open>GEMINI_API_KEY\<close> is unset or empty, outside the
  \<^verbatim>\<open>try\<close> block of the method.
\<close>

definition llmService_generateReply ::
  "string option \<Rightarrow> (string \<Rightarrow> ProviderOutcome) \<Rightarrow> string \<Rightarrow> MessageData list \<Rightarrow> JsError + string" where
  "llmService_generateReply apiKey model userMessage conversationHistory =
     (if apiKey = None \<or> apiKey = Some []
      then Inl (Error ''GEMINI_API_KEY environment variable is not set'')
      else generateReply model userMessage conversationHistory)"

section \<open>Chat routes\<close>

text \<open>
  A field of the parsed JSON body: absent, a string, or any other JSON value. The body
  itself may fail to be an object.
\<close>

datatype JsValue = Undefined | Str string | Other

datatype RequestBody = NotAnObject | Object (req_message: JsValue) (req_sessionId: JsValue)

text \<open>
  \<^verbatim>\<open>messageSchema.safeParse\<close>: \<^verbatim>\<open>message: z.string().min(1).max(2000)\<close> and
  \<^verbatim>\<open>sessionId: z.string().uuid().optional()\<close>. The test behind \<^verbatim>\<open>.uuid()\<close> belongs
  to the zod library and is the parameter \<open>zod_uuid\<close>.
\<close>

definition messageSchema :: "(string \<Rightarrow> bool) \<Rightarrow> RequestBody \<Rightarrow> (string \<times> string option) option" where
  "messageSchema zod_uuid body =
     (case body of
        NotAnObject \<Rightarrow> None
      | Object message sessionId \<Rightarrow>
          (case message of
             Str m \<Rightarrow>
               if 1 \<le> length m \<and> length m \<le> 2000
               then (case sessionId of
                       Undefined \<Rightarrow> Some (m, None)
                     | Str s \<Rightarrow> if zod_uuid s then Some (m, Some s) else None
                     | Other \<Rightarrow> None)
               else None
           | _ \<Rightarrow> None))"

text \<open>The values \<^verbatim>\<open>randomUUID()\<close> and \<^verbatim>\<open>new Date()\<close> give during one request.\<close>

record Environment =
  conv_uuid :: string
  conv_now :: string
  user_uuid :: string
  user_now :: string
  ai_uuid :: string
  ai_now :: string

datatype ChatBody = ChatError string | ChatReply (chat_reply: string) (chat_sessionId: string)

definition fallbackReply :: string where
  "fallbackReply = ''I apologize, but I'm experiencing technical difficulties right now. Please try again in a moment, or contact our support team at support@spurstore.com for immediate assistance.''"

text \<open>
  \<^verbatim>\<open>router.post('/message')\<close>: the new store, the status and the JSON body. The
  parameter \<open>llm\<close> is \<^verbatim>\<open>llmService.generateReply\<close>. A store operation that throws is
  caught by the outer \<^verbatim>\<open>catch\<close>, which answers 500; the writes made before it stay.
\<close>

definition post_message ::
  "(string \<Rightarrow> bool) \<Rightarrow> (string \<Rightarrow> MessageData list \<Rightarrow> JsError + string) \<Rightarrow> Environment \<Rightarrow>
   Database \<Rightarrow> RequestBody \<Rightarrow> Database \<times> nat \<times> ChatBody" where
  "post_message zod_uuid llm env db body =
     (case messageSchema zod_uuid body of
        None \<Rightarrow> (db, 400, ChatError ''Invalid request'')
      | Some (message, sessionId) \<Rightarrow>
          (case getOrCreateConversation (conv_uuid env) (conv_now env) db sessionId of
             Inl _ \<Rightarrow> (db, 500, ChatError ''Internal server error'')
           | Inr (db1, conversation) \<Rightarrow>
               (case addMessage (user_uuid env) (user_now env) db1 (c_id conversation) User message of
                  Inl _ \<Rightarrow> (db1, 500, ChatError ''Internal server error'')
                | Inr (db2, _) \<Rightarrow>
                    let history = getMessages db2 (c_id conversation);
                        aiReply = (case llm message history of
                                     Inr generated \<Rightarrow> generated
                                   | Inl _ \<Rightarrow> fallbackReply)
                    in (case addMessage (ai_uuid env) (ai_now env) db2 (c_id conversation) Ai aiReply of
                          Inl _ \<Rightarrow> (db2, 500, ChatError ''Internal server error'')
                        | Inr (db3, _) \<Rightarrow> (db3, 200, ChatReply aiReply (c_id conversation))))))"

text \<open>
  The test of \<^verbatim>\<open>/^[0-9a-f]{8}-[0-9a-f]{4}-[0-9a-f]{4}-[0-9a-f]{4}-[0-9a-f]{12}$/i\<close>:
  36 characters, a hyphen at the positions 8, 13, 18 and 23, a hexadecimal digit of
  either case elsewhere.
\<close>

definition isHexDigit :: "char \<Rightarrow> bool" where
  "isHexDigit c \<longleftrightarrow> c \<in> set ''0123456789abcdefABCDEF''"

definition sessionIdRegex_test :: "string \<Rightarrow> bool" where
  "sessionIdRegex_test s \<longleftrightarrow>
     length s = 36 \<and>
     list_all (\<lambda>(i, c). if i \<in> set [8, 13, 18, 23] then c = CHR ''-'' else isHexDigit c)
       (enumerate 0 s)"

datatype HistoryBody =
  HistoryError string
| History (h_sessionId: string) (h_createdAt: string) (h_messages: "MessageData list")

text \<open>\<^verbatim>\<open>router.get('/history/:sessionId')\<close>: the status and the JSON body.\<close>

definition get_history :: "Database \<Rightarrow> string \<Rightarrow> nat \<times> HistoryBody" where
  "get_history db sessionId =
     (if \<not> sessionIdRegex_test sessionId then (400, HistoryError ''Invalid session ID format'')
      else (case getConversation db sessionId of
              None \<Rightarrow> (404, HistoryError ''Conversation not found'')
            | Some conversation \<Rightarrow>
                (200, History (c_id conversation) (c_createdAt conversation)
                        (getMessages db sessionId))))"

section \<open>Reachable store states\<close>

text \<open>
  The store changes only through \<^verbatim>\<open>createConversation\<close> and \<^verbatim>\<open>addMessage\<close>. A call
  is recorded with the id and the time it drew; a call that throws changes nothing. The
  reachable states are the results of running any sequence of calls from the empty tables
  that \<^verbatim>\<open>initDatabase\<close> creates.
\<close>

datatype StoreCall =
  CreateConversation string string
| AddMessage string string string Sender string

fun call_time :: "StoreCall \<Rightarrow> string" where
  "call_time (CreateConversation uuid now) = now"
| "call_time (AddMessage uuid now conversationId sender text') = now"

fun perform :: "Database \<Rightarrow> StoreCall \<Rightarrow> Database" where
  "perform db (CreateConversation uuid now) =
     (case createConversation uuid now db of Inl _ \<Rightarrow> db | Inr (db', _) \<Rightarrow> db')"
| "perform db (AddMessage uuid now conversationId sender text') =
     (case addMessage uuid now db conversationId sender text' of
        Inl _ \<Rightarrow> db | Inr (db', _) \<Rightarrow> db')"

definition run :: "StoreCall list \<Rightarrow> Database" where
  "run calls = foldl perform emptyDatabase calls"

text \<open>The messages of a conversation in the order of their insertion.\<close>

definition messagesOf :: "Database \<Rightarrow> string \<Rightarrow> MessageData list" where
  "messagesOf db conversationId =
     filter (\<lambda>m. m_conversationId m = conversationId) (messages db)"

text \<open>
  Properties of a store used below: every message refers to a stored conversation; the
  \<^verbatim>\<open>updatedAt\<close> of a conversation is the timestamp of the message inserted last for
  it; no timestamp exceeds a bound \<open>T\<close> and none exceeds the \<^verbatim>\<open>updatedAt\<close> of its
  conversation.
\<close>

definition referentialIntegrity :: "Database \<Rightarrow> bool" where
  "referentialIntegrity db \<longleftrightarrow>
     (\<forall>m \<in> set (messages db). m_conversationId m \<in> set (map c_id (conversations db)))"

definition updatedAtIsLast :: "Database \<Rightarrow> bool" where
  "updatedAtIsLast db \<longleftrightarrow>
     (\<forall>c \<in> set (conversations db). messagesOf db (c_id c) \<noteq> [] \<longrightarrow>
        c_updatedAt c = m_timestamp (last (messagesOf db (c_id c))))"

definition updatedAtBounds :: "string \<Rightarrow> Database \<Rightarrow> bool" where
  "updatedAtBounds T db \<longleftrightarrow>
     (\<forall>m \<in> set (messages db). m_timestamp m \<le> T) \<and>
     (\<forall>c \<in> set (conversations db). \<forall>m \<in> set (messagesOf db (c_id c)).
        m_timestamp m \<le> c_updatedAt c)"

section \<open>Example data\<close>

text \<open>
  A store with one conversation of ten messages, and a stand-in for
  \<^verbatim>\<open>llmService.generateReply\<close> that reports how long the history it is given is.
\<close>

definition tenMessageStore :: Database where
  "tenMessageStore =
     \<lparr>conversations =
        [\<lparr>c_id = ''123e4567-e89b-12d3-a456-426614174000'', c_createdAt = ''t0'',
          c_updatedAt = ''t9''\<rparr>],
      messages =
        map (\<lambda>d. \<lparr>m_id = [CHR ''m'', d],
                   m_conversationId = ''123e4567-e89b-12d3-a456-426614174000'',
                   m_sender = (if d \<in> set ''02468'' then User else Ai),
                   m_text = [CHR ''#'', d], m_timestamp = [CHR ''t'', d]\<rparr>)
          ''0123456789''\<rparr>"

definition historyLengthProbe :: "string \<Rightarrow> MessageData list \<Rightarrow> JsError + string" where
  "historyLengthProbe userMessage history =
     Inr (if length history \<le> 10 then ''at most 10 messages'' else ''more than 10 messages'')"


section \<open>Properties of the conversation store\<close>

lemma getConversation_Some_id:
  "getConversation db cid = Some c \<Longrightarrow> c_id c = cid \<and> c \<in> set (conversations db)"
  unfolding getConversation_def by (auto simp: find_Some_iff)

lemma getConversation_None_iff:
  "getConversation db cid = None \<longleftrightarrow> cid \<notin> set (map c_id (conversations db))"
  unfolding getConversation_def by (auto simp: find_None_iff)

lemma find_snoc_fresh:
  "\<forall>x \<in> set xs. \<not> P x \<Longrightarrow> find P (xs @ [y]) = (if P y then Some y else None)"
  by (induction xs) auto

lemma getConversation_after_create:
  "uuid \<notin> set (map c_id (conversations db)) \<Longrightarrow>
   getConversation (db\<lparr>conversations := conversations db @ [row]\<rparr>) uuid =
     (if c_id row = uuid then Some row else None)"
proof -
  assume "uuid \<notin> set (map c_id (conversations db))"
  then have "\<forall>c \<in> set (conversations db). \<not> c_id c = uuid" by auto
  then show ?thesis
    unfolding getConversation_def using find_snoc_fresh [of "conversations db" "\<lambda>c. c_id c = uuid" row]
    by simp
qed

lemma getOrCreateConversation_existing:
  assumes "getConversation db cid = Some c" and "cid \<noteq> []"
  shows "getOrCreateConversation uuid now db (Some cid) = Inr (db, c)"
  using assms by (simp add: getOrCreateConversation_def)

lemma createConversation_fresh:
  assumes "uuid \<notin> set (map c_id (conversations db))"
  shows "createConversation uuid now db =
     Inr (db\<lparr>conversations := conversations db @
            [\<lparr>c_id = uuid, c_createdAt = now, c_updatedAt = now\<rparr>]\<rparr>,
          \<lparr>c_id = uuid, c_createdAt = now, c_updatedAt = now\<rparr>)"
  using assms by (simp add: createConversation_def Let_def)

lemma getOrCreateConversation_unresolved:
  assumes "sid = None \<or> (\<exists>s. sid = Some s \<and> getConversation db s = None)"
  shows "getOrCreateConversation uuid now db sid = createConversation uuid now db"
  using assms by (auto simp: getOrCreateConversation_def)

text \<open>
  C3. \<^verbatim>\<open>getOrCreateConversation\<close> is permissive and idempotent on resolving ids.
  A supplied id that resolves returns the stored conversation and leaves the store as it
  was. With no id, or with a supplied id that does not resolve, a conversation is created
  under the generated id and returned, with no error for the unresolved id (the only
  failure the operation has is the primary-key violation of a generated id that is already
  in use). Calling again with the returned id resolves to the same conversation and
  creates nothing.
\<close>

theorem getOrCreateConversation_permissive_idempotent:
  "(getConversation db cid = Some c \<and> cid \<noteq> [] \<longrightarrow>
      getOrCreateConversation uuid now db (Some cid) = Inr (db, c) \<and> c_id c = cid)
   \<and> (uuid \<notin> set (map c_id (conversations db)) \<and>
        (sid = None \<or> (\<exists>s. sid = Some s \<and> getConversation db s = None)) \<longrightarrow>
        (\<exists>db' c'. getOrCreateConversation uuid now db sid = Inr (db', c')
           \<and> c' = \<lparr>c_id = uuid, c_createdAt = now, c_updatedAt = now\<rparr>
           \<and> conversations db' = conversations db @ [c']
           \<and> messages db' = messages db
           \<and> (uuid \<noteq> [] \<longrightarrow>
                getOrCreateConversation uuid2 now2 db' (Some (c_id c')) = Inr (db', c'))))"
proof (rule conjI)
  show "getConversation db cid = Some c \<and> cid \<noteq> [] \<longrightarrow>
      getOrCreateConversation uuid now db (Some cid) = Inr (db, c) \<and> c_id c = cid"
    using getConversation_Some_id [of db cid c]
    by (simp add: getOrCreateConversation_existing)
next
  let ?c = "\<lparr>c_id = uuid, c_createdAt = now, c_updatedAt = now\<rparr>"
  let ?db = "db\<lparr>conversations := conversations db @ [?c]\<rparr>"
  show "uuid \<notin> set (map c_id (conversations db)) \<and>
        (sid = None \<or> (\<exists>s. sid = Some s \<and> getConversation db s = None)) \<longrightarrow>
        (\<exists>db' c'. getOrCreateConversation uuid now db sid = Inr (db', c')
           \<and> c' = \<lparr>c_id = uuid, c_createdAt = now, c_updatedAt = now\<rparr>
           \<and> conversations db' = conversations db @ [c']
           \<and> messages db' = messages db
           \<and> (uuid \<noteq> [] \<longrightarrow>
                getOrCreateConversation uuid2 now2 db' (Some (c_id c')) = Inr (db', c')))"
  proof (rule impI)
    assume a: "uuid \<notin> set (map c_id (conversations db)) \<and>
        (sid = None \<or> (\<exists>s. sid = Some s \<and> getConversation db s = None))"
    then have fresh: "uuid \<notin> set (map c_id (conversations db))" by simp
    from a have res: "getOrCreateConversation uuid now db sid = Inr (?db, ?c)"
      by (simp add: getOrCreateConversation_unresolved createConversation_fresh [OF fresh])
    have found: "getConversation ?db uuid = Some ?c"
      using getConversation_after_create [OF fresh, of ?c] by simp
    have again: "uuid \<noteq> [] \<longrightarrow>
        getOrCreateConversation uuid2 now2 ?db (Some (c_id ?c)) = Inr (?db, ?c)"
      using found by (simp add: getOrCreateConversation_existing)
    show "\<exists>db' c'. getOrCreateConversation uuid now db sid = Inr (db', c')
           \<and> c' = \<lparr>c_id = uuid, c_createdAt = now, c_updatedAt = now\<rparr>
           \<and> conversations db' = conversations db @ [c']
           \<and> messages db' = messages db
           \<and> (uuid \<noteq> [] \<longrightarrow>
                getOrCreateConversation uuid2 now2 db' (Some (c_id c')) = Inr (db', c'))"
      using res again by (intro exI [of _ ?db] exI [of _ ?c]) simp
  qed
qed

theorem getOrCreateConversation_permissive_idempotent_witness:
  "getOrCreateConversation ''u2'' ''t2''
      \<lparr>conversations = [\<lparr>c_id = ''u1'', c_createdAt = ''t1'', c_updatedAt = ''t1''\<rparr>], messages = []\<rparr>
      (Some ''u1'')
    = Inr (\<lparr>conversations = [\<lparr>c_id = ''u1'', c_createdAt = ''t1'', c_updatedAt = ''t1''\<rparr>], messages = []\<rparr>,
           \<lparr>c_id = ''u1'', c_createdAt = ''t1'', c_updatedAt = ''t1''\<rparr>)
   \<and> (\<exists>db' c'. getOrCreateConversation ''u2'' ''t2''
          \<lparr>conversations = [\<lparr>c_id = ''u1'', c_createdAt = ''t1'', c_updatedAt = ''t1''\<rparr>], messages = []\<rparr>
          (Some ''u9'') = Inr (db', c')
        \<and> c' = \<lparr>c_id = ''u2'', c_createdAt = ''t2'', c_updatedAt = ''t2''\<rparr>
        \<and> getOrCreateConversation ''u3'' ''t3'' db' (Some ''u2'') = Inr (db', c'))"
  using getOrCreateConversation_permissive_idempotent
    [of "\<lparr>conversations = [\<lparr>c_id = ''u1'', c_createdAt = ''t1'', c_updatedAt = ''t1''\<rparr>], messages = []\<rparr>"
        "''u1''" "\<lparr>c_id = ''u1'', c_createdAt = ''t1'', c_updatedAt = ''t1''\<rparr>"
        "''u2''" "''t2''" "Some ''u9''" "''u3''" "''t3''"]
  by (auto simp: getConversation_def)

section \<open>The chat routes\<close>

lemma messageSchema_rejects:
  "m = [] \<or> length m > 2000 \<or> (\<exists>s. sid = Str s \<and> \<not> zod_uuid s) \<Longrightarrow>
   messageSchema zod_uuid (Object (Str m) sid) = None"
  by (auto simp: messageSchema_def split: JsValue.splits)

text \<open>
  C2. A \<^verbatim>\<open>POST /chat/message\<close> request whose message is empty or longer than 2000
  characters, or whose supplied \<^verbatim>\<open>sessionId\<close> fails the identifier test, is answered
  400 before any mutation: the store that comes back is the store that went in, so no
  conversation is created and no message is persisted.
\<close>

theorem post_message_invalid_rejected:
  assumes "m = [] \<or> length m > 2000 \<or> (\<exists>s. sid = Str s \<and> \<not> zod_uuid s)"
  shows "post_message zod_uuid llm env db (Object (Str m) sid) = (db, 400, ChatError ''Invalid request'')"
  using messageSchema_rejects [OF assms] by (simp add: post_message_def)

lemma addMessage_fresh:
  assumes "uuid \<notin> set (map m_id (messages db))" and "cid \<in> set (map c_id (conversations db))"
  shows "addMessage uuid ts db cid sender txt =
     Inr (db\<lparr>messages := messages db @
              [\<lparr>m_id = uuid, m_conversationId = cid, m_sender = sender, m_text = txt, m_timestamp = ts\<rparr>],
             conversations :=
               map (\<lambda>c. if c_id c = cid then c\<lparr>c_updatedAt := ts\<rparr> else c) (conversations db)\<rparr>,
          \<lparr>m_id = uuid, m_conversationId = cid, m_sender = sender, m_text = txt, m_timestamp = ts\<rparr>)"
  using assms by (simp add: addMessage_def Let_def)

lemma getOrCreateConversation_result:
  assumes "uuid \<notin> set (map c_id (conversations db))"
  shows "\<exists>db1 c. getOrCreateConversation uuid now db sid = Inr (db1, c)
     \<and> messages db1 = messages db
     \<and> c_id c \<in> set (map c_id (conversations db1))
     \<and> c_id c = (case sid of None \<Rightarrow> uuid
                  | Some s \<Rightarrow> if s \<noteq> [] \<and> getConversation db s \<noteq> None then s else uuid)"
proof (cases "\<exists>s c. sid = Some s \<and> s \<noteq> [] \<and> getConversation db s = Some c")
  case True
  then obtain s c where s: "sid = Some s" "s \<noteq> []" "getConversation db s = Some c" by blast
  then show ?thesis
    using getConversation_Some_id [of db s c]
    by (auto simp: getOrCreateConversation_def)
next
  case False
  then have "getOrCreateConversation uuid now db sid = createConversation uuid now db"
    by (auto simp: getOrCreateConversation_def split: option.splits)
  then show ?thesis
    using False by (auto simp: createConversation_fresh [OF assms] split: option.splits)
qed


lemma map_c_id_update:
  "map c_id (map (\<lambda>c. if c_id c = cid then c\<lparr>c_updatedAt := ts\<rparr> else c) cs) = map c_id cs"
  by (induction cs) auto

lemma post_message_valid:
  assumes valid: "messageSchema zod_uuid body = Some (message, sessionId)"
    and fresh_conv: "conv_uuid env \<notin> set (map c_id (conversations db))"
    and fresh_user: "user_uuid env \<notin> set (map m_id (messages db))"
    and fresh_ai: "ai_uuid env \<notin> set (map m_id (messages db))"
    and distinct_ids: "ai_uuid env \<noteq> user_uuid env"
  shows "\<exists>db3 cid userRow history aiReply.
      post_message zod_uuid llm env db body = (db3, 200, ChatReply aiReply cid)
    \<and> cid = (case sessionId of None \<Rightarrow> conv_uuid env
             | Some s \<Rightarrow> if s \<noteq> [] \<and> getConversation db s \<noteq> None then s else conv_uuid env)
    \<and> userRow = \<lparr>m_id = user_uuid env, m_conversationId = cid, m_sender = User,
                  m_text = message, m_timestamp = user_now env\<rparr>
    \<and> history = sort_key m_timestamp
                  (filter (\<lambda>m. m_conversationId m = cid) (messages db @ [userRow]))
    \<and> aiReply = (case llm message history of Inr generated \<Rightarrow> generated | Inl _ \<Rightarrow> fallbackReply)
    \<and> messages db3 = messages db @
          [userRow,
           \<lparr>m_id = ai_uuid env, m_conversationId = cid, m_sender = Ai,
            m_text = aiReply, m_timestamp = ai_now env\<rparr>]"
proof -
  obtain db1 c where
    conv: "getOrCreateConversation (conv_uuid env) (conv_now env) db sessionId = Inr (db1, c)"
    and msgs1: "messages db1 = messages db"
    and mem1: "c_id c \<in> set (map c_id (conversations db1))"
    and cid: "c_id c = (case sessionId of None \<Rightarrow> conv_uuid env
             | Some s \<Rightarrow> if s \<noteq> [] \<and> getConversation db s \<noteq> None then s else conv_uuid env)"
    using getOrCreateConversation_result [OF fresh_conv, of "conv_now env" sessionId] by blast
  let ?cid = "c_id c"
  let ?userRow = "\<lparr>m_id = user_uuid env, m_conversationId = ?cid, m_sender = User,
                  m_text = message, m_timestamp = user_now env\<rparr>"
  let ?db2 = "db1\<lparr>messages := messages db1 @ [?userRow],
                 conversations := map (\<lambda>c. if c_id c = ?cid then c\<lparr>c_updatedAt := user_now env\<rparr> else c)
                                    (conversations db1)\<rparr>"
  have add1: "addMessage (user_uuid env) (user_now env) db1 ?cid User message = Inr (?db2, ?userRow)"
    using fresh_user msgs1 mem1 by (intro addMessage_fresh) simp_all
  let ?history = "getMessages ?db2 ?cid"
  let ?aiReply = "case llm message ?history of Inr generated \<Rightarrow> generated | Inl _ \<Rightarrow> fallbackReply"
  let ?aiRow = "\<lparr>m_id = ai_uuid env, m_conversationId = ?cid, m_sender = Ai,
                  m_text = ?aiReply, m_timestamp = ai_now env\<rparr>"
  let ?db3 = "?db2\<lparr>messages := messages ?db2 @ [?aiRow],
                 conversations := map (\<lambda>c. if c_id c = ?cid then c\<lparr>c_updatedAt := ai_now env\<rparr> else c)
                                    (conversations ?db2)\<rparr>"
  have fresh2: "ai_uuid env \<notin> set (map m_id (messages ?db2))"
    using fresh_ai distinct_ids msgs1 by simp
  have mem2: "?cid \<in> set (map c_id (conversations ?db2))"
  proof -
    have "map c_id (conversations ?db2) = map c_id (conversations db1)"
      using map_c_id_update [of ?cid "user_now env" "conversations db1"] by simp
    then show ?thesis using mem1 by metis
  qed
  have add2: "addMessage (ai_uuid env) (ai_now env) ?db2 ?cid Ai ?aiReply = Inr (?db3, ?aiRow)"
    using fresh2 mem2 by (rule addMessage_fresh)
  have res: "post_message zod_uuid llm env db body = (?db3, 200, ChatReply ?aiReply ?cid)"
    unfolding post_message_def using valid conv add1 add2 by (simp add: Let_def)
  have hist: "?history = sort_key m_timestamp
                  (filter (\<lambda>m. m_conversationId m = ?cid) (messages db @ [?userRow]))"
    by (simp add: getMessages_def msgs1)
  have msgs3: "messages ?db3 = messages db @ [?userRow, ?aiRow]"
    by (simp add: msgs1)
  show ?thesis
    apply (rule exI [of _ ?db3], rule exI [of _ ?cid], rule exI [of _ ?userRow])
    apply (rule exI [of _ ?history], rule exI [of _ ?aiReply])
    using res cid hist msgs3 by simp
qed


text \<open>
  C1. A \<^verbatim>\<open>POST /chat/message\<close> request that passes validation, with the ids that
  \<^verbatim>\<open>randomUUID\<close> draws unused so far, is answered 200. When the reply generator fails on
  the message and the history it is given, whatever the failure, the reply is the fixed
  fallback text, which is not empty. On failure and on success alike exactly two messages
  are appended: the user's text verbatim, then the AI turn that was returned.
\<close>

theorem post_message_fallback_on_generator_failure:
  assumes "messageSchema zod_uuid body = Some (message, sessionId)"
    and "conv_uuid env \<notin> set (map c_id (conversations db))"
    and "user_uuid env \<notin> set (map m_id (messages db))"
    and "ai_uuid env \<notin> set (map m_id (messages db))"
    and "ai_uuid env \<noteq> user_uuid env"
  shows "\<exists>db' cid userRow history aiReply.
      post_message zod_uuid llm env db body = (db', 200, ChatReply aiReply cid)
    \<and> userRow = \<lparr>m_id = user_uuid env, m_conversationId = cid, m_sender = User,
                  m_text = message, m_timestamp = user_now env\<rparr>
    \<and> history = getMessages (db\<lparr>messages := messages db @ [userRow]\<rparr>) cid
    \<and> ((\<exists>e. llm message history = Inl e) \<longrightarrow> aiReply = fallbackReply \<and> aiReply \<noteq> [])
    \<and> (\<forall>generated. llm message history = Inr generated \<longrightarrow> aiReply = generated)
    \<and> messages db' = messages db @
          [userRow,
           \<lparr>m_id = ai_uuid env, m_conversationId = cid, m_sender = Ai,
            m_text = aiReply, m_timestamp = ai_now env\<rparr>]
    \<and> length (messages db') = length (messages db) + 2"
proof -
  obtain db3 cid userRow history aiReply where
    res: "post_message zod_uuid llm env db body = (db3, 200, ChatReply aiReply cid)"
    and row: "userRow = \<lparr>m_id = user_uuid env, m_conversationId = cid, m_sender = User,
                  m_text = message, m_timestamp = user_now env\<rparr>"
    and hist: "history = sort_key m_timestamp
                  (filter (\<lambda>m. m_conversationId m = cid) (messages db @ [userRow]))"
    and reply: "aiReply = (case llm message history of Inr generated \<Rightarrow> generated | Inl _ \<Rightarrow> fallbackReply)"
    and msgs: "messages db3 = messages db @
          [userRow,
           \<lparr>m_id = ai_uuid env, m_conversationId = cid, m_sender = Ai,
            m_text = aiReply, m_timestamp = ai_now env\<rparr>]"
    using post_message_valid [OF assms, of llm] by blast
  have hist': "history = getMessages (db\<lparr>messages := messages db @ [userRow]\<rparr>) cid"
    using hist by (simp add: getMessages_def)
  have fail: "(\<exists>e. llm message history = Inl e) \<longrightarrow> aiReply = fallbackReply \<and> aiReply \<noteq> []"
    using reply by (auto simp: fallbackReply_def)
  have ok: "\<forall>generated. llm message history = Inr generated \<longrightarrow> aiReply = generated"
    using reply by auto
  have len: "length (messages db3) = length (messages db) + 2"
    using msgs by simp
  show ?thesis
    using res row hist' fail ok msgs len by blast
qed

theorem post_message_fallback_on_generator_failure_witness:
  "post_message sessionIdRegex_test (llmService_generateReply None (\<lambda>p. Responds ''Hello!''))
     \<lparr>conv_uuid = ''c1'', conv_now = ''t1'', user_uuid = ''m1'', user_now = ''t2'',
      ai_uuid = ''m2'', ai_now = ''t3''\<rparr>
     emptyDatabase (Object (Str ''hi'') Undefined)
   = (\<lparr>conversations = [\<lparr>c_id = ''c1'', c_createdAt = ''t1'', c_updatedAt = ''t3''\<rparr>],
       messages = [\<lparr>m_id = ''m1'', m_conversationId = ''c1'', m_sender = User,
                    m_text = ''hi'', m_timestamp = ''t2''\<rparr>,
                   \<lparr>m_id = ''m2'', m_conversationId = ''c1'', m_sender = Ai,
                    m_text = fallbackReply, m_timestamp = ''t3''\<rparr>]\<rparr>,
      200, ChatReply fallbackReply ''c1'')"
  using post_message_fallback_on_generator_failure
    [of sessionIdRegex_test "Object (Str ''hi'') Undefined" "''hi''" None
        "\<lparr>conv_uuid = ''c1'', conv_now = ''t1'', user_uuid = ''m1'', user_now = ''t2'',
          ai_uuid = ''m2'', ai_now = ''t3''\<rparr>"
        emptyDatabase "llmService_generateReply None (\<lambda>p. Responds ''Hello!'')"]
  by (simp add: messageSchema_def emptyDatabase_def post_message_def getOrCreateConversation_def
      createConversation_def addMessage_def getMessages_def llmService_generateReply_def Let_def)

theorem post_message_invalid_rejected_witness:
  "post_message sessionIdRegex_test (\<lambda>m h. Inr ''ok'')
     \<lparr>conv_uuid = ''c1'', conv_now = ''t1'', user_uuid = ''m1'', user_now = ''t2'',
      ai_uuid = ''m2'', ai_now = ''t3''\<rparr>
     emptyDatabase (Object (Str []) Undefined)
     = (emptyDatabase, 400, ChatError ''Invalid request'')
   \<and> post_message sessionIdRegex_test (\<lambda>m h. Inr ''ok'')
     \<lparr>conv_uuid = ''c1'', conv_now = ''t1'', user_uuid = ''m1'', user_now = ''t2'',
      ai_uuid = ''m2'', ai_now = ''t3''\<rparr>
     emptyDatabase (Object (Str (replicate 2001 CHR ''a'')) Undefined)
     = (emptyDatabase, 400, ChatError ''Invalid request'')
   \<and> post_message sessionIdRegex_test (\<lambda>m h. Inr ''ok'')
     \<lparr>conv_uuid = ''c1'', conv_now = ''t1'', user_uuid = ''m1'', user_now = ''t2'',
      ai_uuid = ''m2'', ai_now = ''t3''\<rparr>
     emptyDatabase (Object (Str ''hi'') (Str ''not-a-uuid''))
     = (emptyDatabase, 400, ChatError ''Invalid request'')"
  using post_message_invalid_rejected [of "[]" Undefined sessionIdRegex_test "\<lambda>m h. Inr ''ok''"
      "\<lparr>conv_uuid = ''c1'', conv_now = ''t1'', user_uuid = ''m1'', user_now = ''t2'',
        ai_uuid = ''m2'', ai_now = ''t3''\<rparr>" emptyDatabase]
    post_message_invalid_rejected [of "replicate 2001 CHR ''a''" Undefined sessionIdRegex_test
      "\<lambda>m h. Inr ''ok''"
      "\<lparr>conv_uuid = ''c1'', conv_now = ''t1'', user_uuid = ''m1'', user_now = ''t2'',
        ai_uuid = ''m2'', ai_now = ''t3''\<rparr>" emptyDatabase]
    post_message_invalid_rejected [of "''hi''" "Str ''not-a-uuid''" sessionIdRegex_test
      "\<lambda>m h. Inr ''ok''"
      "\<lparr>conv_uuid = ''c1'', conv_now = ''t1'', user_uuid = ''m1'', user_now = ''t2'',
        ai_uuid = ''m2'', ai_now = ''t3''\<rparr>" emptyDatabase]
  by (simp add: sessionIdRegex_test_def)

lemma getMessages_props:
  "(\<forall>m \<in> set (getMessages db cid). m_conversationId m = cid \<and> m \<in> set (messages db))
   \<and> sorted (map m_timestamp (getMessages db cid))
   \<and> mset (getMessages db cid) = mset (filter (\<lambda>m. m_conversationId m = cid) (messages db))"
  unfolding getMessages_def by simp

text \<open>
  C8. \<^verbatim>\<open>GET /chat/history/{sessionId}\<close> answers 400 when the id fails the format test,
  otherwise 404 when no conversation has that id, otherwise 200 with the id and creation
  time of the conversation and all of its stored messages (none left out, none windowed):
  each carries the requested id as its \<^verbatim>\<open>conversationId\<close> and the timestamps are in
  non-decreasing order.
\<close>

theorem get_history_cases:
  "(\<not> sessionIdRegex_test sessionId \<longrightarrow> fst (get_history db sessionId) = 400)
   \<and> (sessionIdRegex_test sessionId \<and> getConversation db sessionId = None \<longrightarrow>
        fst (get_history db sessionId) = 404)
   \<and> (\<forall>conversation. sessionIdRegex_test sessionId \<and> getConversation db sessionId = Some conversation \<longrightarrow>
        (\<exists>msgs. get_history db sessionId = (200, History sessionId (c_createdAt conversation) msgs)
           \<and> conversation \<in> set (conversations db)
           \<and> mset msgs = mset (filter (\<lambda>m. m_conversationId m = sessionId) (messages db))
           \<and> (\<forall>m \<in> set msgs. m_conversationId m = sessionId)
           \<and> sorted (map m_timestamp msgs)))"
  using getMessages_props [of db sessionId] getConversation_Some_id [of db sessionId]
  by (auto simp: get_history_def)


theorem get_history_cases_witness:
  "get_history
     \<lparr>conversations = [\<lparr>c_id = ''123e4567-e89b-12d3-a456-426614174000'',
                         c_createdAt = ''t1'', c_updatedAt = ''t2''\<rparr>],
      messages = [\<lparr>m_id = ''m1'', m_conversationId = ''123e4567-e89b-12d3-a456-426614174000'',
                   m_sender = User, m_text = ''hi'', m_timestamp = ''t3''\<rparr>,
                  \<lparr>m_id = ''m2'', m_conversationId = ''123e4567-e89b-12d3-a456-426614174000'',
                   m_sender = Ai, m_text = ''hello'', m_timestamp = ''t2''\<rparr>]\<rparr>
     ''123e4567-e89b-12d3-a456-426614174000''
   = (200, History ''123e4567-e89b-12d3-a456-426614174000'' ''t1''
        [\<lparr>m_id = ''m2'', m_conversationId = ''123e4567-e89b-12d3-a456-426614174000'',
          m_sender = Ai, m_text = ''hello'', m_timestamp = ''t2''\<rparr>,
         \<lparr>m_id = ''m1'', m_conversationId = ''123e4567-e89b-12d3-a456-426614174000'',
          m_sender = User, m_text = ''hi'', m_timestamp = ''t3''\<rparr>])
   \<and> fst (get_history emptyDatabase ''123E4567-E89B-12D3-A456-426614174000'') = 404
   \<and> fst (get_history emptyDatabase ''123e4567'') = 400"
  using get_history_cases
      [of "''123e4567-e89b-12d3-a456-426614174000''"
          "\<lparr>conversations = [\<lparr>c_id = ''123e4567-e89b-12d3-a456-426614174000'',
                         c_createdAt = ''t1'', c_updatedAt = ''t2''\<rparr>],
            messages = [\<lparr>m_id = ''m1'', m_conversationId = ''123e4567-e89b-12d3-a456-426614174000'',
                   m_sender = User, m_text = ''hi'', m_timestamp = ''t3''\<rparr>,
                  \<lparr>m_id = ''m2'', m_conversationId = ''123e4567-e89b-12d3-a456-426614174000'',
                   m_sender = Ai, m_text = ''hello'', m_timestamp = ''t2''\<rparr>]\<rparr>"]
    get_history_cases [of "''123E4567-E89B-12D3-A456-426614174000''" emptyDatabase]
    get_history_cases [of "''123e4567''" emptyDatabase]
  by (simp add: get_history_def getConversation_def getMessages_def emptyDatabase_def
      sessionIdRegex_test_def isHexDigit_def enumerate_eq_zip)

section \<open>The reply generator\<close>





lemma catch_EmptyInput:
  "generateReply_catch (Error ''Message cannot be empty'') = Error ''Message cannot be empty''"
  by (simp add: generateReply_catch_def message_includes_def Error_def)

lemma catch_EmptyResponse:
  "generateReply_catch (Error ''Empty response from LLM'') = Error ''Empty response from LLM''"
  by (simp add: generateReply_catch_def message_includes_def Error_def)

lemma generateReply_blank:
  "trim userMessage = [] \<Longrightarrow>
   generateReply model userMessage h = Inl (Error ''Message cannot be empty'')"
  by (simp add: generateReply_def generateReply_try_def catch_EmptyInput)

lemma trim_Nil: "trim [] = []"
  by (simp add: trim_def)

lemma generateReply_try_sent:
  assumes "trim userMessage \<noteq> []"
  shows "generateReply_try model userMessage h =
     (case model (prompt (truncated userMessage) h) of
        Throws e \<Rightarrow> Inl e
      | Responds t \<Rightarrow>
          if trim t = [] then Inl (Error ''Empty response from LLM'') else Inr (trim t))"
proof -
  have "userMessage \<noteq> []" using assms trim_Nil by auto
  then show ?thesis
    using assms by (simp add: generateReply_try_def Let_def split: ProviderOutcome.splits)
qed

lemma generateReply_sent:
  assumes "trim userMessage \<noteq> []"
  shows "generateReply model userMessage h =
     (case model (prompt (truncated userMessage) h) of
        Throws e \<Rightarrow> Inl (generateReply_catch e)
      | Responds t \<Rightarrow>
          if trim t = [] then Inl (Error ''Empty response from LLM'') else Inr (trim t))"
  unfolding generateReply_def generateReply_try_sent [OF assms]
  by (simp add: catch_EmptyResponse split: ProviderOutcome.splits)


lemma truncated_cases:
  "(length userMessage > 2000 \<longrightarrow>
      truncated userMessage = take 2000 userMessage @ ''...'' \<and> length (truncated userMessage) = 2003)
   \<and> (length userMessage \<le> 2000 \<longrightarrow> truncated userMessage = userMessage)"
  by (simp add: truncated_def MAX_MESSAGE_LENGTH_def)

text \<open>
  C5. \<^verbatim>\<open>generateReply\<close> has no failure for length. For a \<^verbatim>\<open>userMessage\<close> that is
  not blank, a message longer than 2000 characters is cut to its first 2000 characters
  followed by the marker \<^verbatim>\<open>...\<close>, a message of at most 2000 characters is left as it
  is, the prompt sent to the provider ends with that text as the final Customer line, and
  the caller sees only what the provider made of that prompt: its trimmed text, or the
  failure for an empty response or for what the provider threw. (A blank message fails as
  empty input whatever its length, see C6.)
\<close>

theorem generateReply_truncates_long_message:
  assumes "trim userMessage \<noteq> []"
  shows "(length userMessage > 2000 \<longrightarrow>
            truncated userMessage = take 2000 userMessage @ ''...''
          \<and> length (truncated userMessage) = 2003)
       \<and> (length userMessage \<le> 2000 \<longrightarrow> truncated userMessage = userMessage)
       \<and> (\<exists>before. prompt (truncated userMessage) h =
              before @ ''Customer: '' @ truncated userMessage @ ''\<newline>Support Agent:'')
       \<and> generateReply model userMessage h =
            (case model (prompt (truncated userMessage) h) of
               Throws e \<Rightarrow> Inl (generateReply_catch e)
             | Responds t \<Rightarrow>
                 if trim t = [] then Inl (Error ''Empty response from LLM'') else Inr (trim t))"
proof -
  have "\<exists>before. prompt (truncated userMessage) h =
              before @ ''Customer: '' @ truncated userMessage @ ''\<newline>Support Agent:''"
    unfolding prompt_def
    by (rule exI [of _ "DOMAIN_KNOWLEDGE @ ''\<newline>\<newline>Previous conversation:\<newline>'' @
          (if historyText h = [] then ''This is the start of the conversation.''
           else historyText h) @ ''\<newline>\<newline>''"]) simp
  then show ?thesis
    using truncated_cases [of userMessage] generateReply_sent [OF assms, of model h] by simp
qed

theorem generateReply_truncates_long_message_witness:
  "generateReply (\<lambda>p. Responds '' Sure. '') (replicate 2001 CHR ''a'') [] = Inr ''Sure.''
   \<and> truncated (replicate 2001 CHR ''a'') = replicate 2000 CHR ''a'' @ ''...''
   \<and> truncated ''hello'' = ''hello''"
proof -
  have blank: "trim (replicate 2001 CHR ''a'') \<noteq> []"
    by (simp add: trim_def isWhiteSpace_def)
  have short: "trim ''hello'' \<noteq> []"
    by (simp add: trim_def isWhiteSpace_def)
  have "trim '' Sure. '' = ''Sure.''"
    by (simp add: trim_def isWhiteSpace_def)
  then show ?thesis
    using generateReply_truncates_long_message [OF blank, of "[]" "\<lambda>p. Responds '' Sure. ''"]
      generateReply_truncates_long_message [OF short, of "[]" "\<lambda>p. Responds '' Sure. ''"]
    by simp
qed

lemma generateReply_catch_shape:
  "generateReply_catch thrown \<in>
     {Error ''Invalid API key. Please check your GEMINI_API_KEY environment variable.'',
      Error ''API rate limit exceeded. Please try again in a moment.'',
      Error ''Request timed out. Please try again.'',
      Error (case err_message thrown of
               None \<Rightarrow> ''Failed to generate reply. Please try again later.''
             | Some m \<Rightarrow> if m = [] then ''Failed to generate reply. Please try again later.'' else m)}"
  unfolding generateReply_catch_def by simp






text \<open>
  C7. Every failure \<^verbatim>\<open>generateReply\<close> raises to its caller is a fresh \<^verbatim>\<open>Error\<close> that
  carries a message only (no code or other field of what the provider threw). Its message
  is one of five fixed texts, for invalid credentials, rate limiting, timeout, empty
  response and empty input, or else, in the catch-all case of a provider error, the
  message of what the provider threw, replaced by a fixed generic text when that message
  is missing or empty.
\<close>

theorem generateReply_failure_taxonomy:
  assumes "generateReply model userMessage h = Inl e"
  shows "e = Error ''Invalid API key. Please check your GEMINI_API_KEY environment variable.''
       \<or> e = Error ''API rate limit exceeded. Please try again in a moment.''
       \<or> e = Error ''Request timed out. Please try again.''
       \<or> e = Error ''Empty response from LLM''
       \<or> e = Error ''Message cannot be empty''
       \<or> (\<exists>thrown. model (prompt (truncated userMessage) h) = Throws thrown
             \<and> e = Error (case err_message thrown of
                            None \<Rightarrow> ''Failed to generate reply. Please try again later.''
                          | Some m \<Rightarrow>
                              if m = [] then ''Failed to generate reply. Please try again later.''
                              else m))"
proof (cases "trim userMessage = []")
  case True
  then show ?thesis using assms by (simp add: generateReply_blank)
next
  case False
  show ?thesis
  proof (cases "model (prompt (truncated userMessage) h)")
    case (Responds t)
    then show ?thesis
      using assms generateReply_sent [OF False, of model h] by (simp split: if_splits)
  next
    case (Throws thrown)
    then have "e = generateReply_catch thrown"
      using assms generateReply_sent [OF False, of model h] by simp
    then show ?thesis
      using generateReply_catch_shape [of thrown] Throws by blast
  qed
qed

theorem generateReply_failure_taxonomy_witness:
  "generateReply (\<lambda>p. Throws (JsError (Some ''429: quota exceeded'') (Some ''RESOURCE_EXHAUSTED'')))
     ''hi'' []
   = Inl (Error ''API rate limit exceeded. Please try again in a moment.'')"
proof -
  have ne: "trim ''hi'' \<noteq> []" by (simp add: trim_def isWhiteSpace_def)
  have "generateReply_catch (JsError (Some ''429: quota exceeded'') (Some ''RESOURCE_EXHAUSTED''))
        = Error ''API rate limit exceeded. Please try again in a moment.''"
    by (simp add: generateReply_catch_def message_includes_def)
  then have r: "generateReply
      (\<lambda>p. Throws (JsError (Some ''429: quota exceeded'') (Some ''RESOURCE_EXHAUSTED''))) ''hi'' []
     = Inl (Error ''API rate limit exceeded. Please try again in a moment.'')"
    using generateReply_sent [OF ne] by simp
  show ?thesis
    using generateReply_failure_taxonomy [OF r] r by simp
qed

section \<open>The context window\<close>

lemma recentHistory_length: "length (recentHistory h) \<le> 10"
  by (simp add: recentHistory_def MAX_HISTORY_MESSAGES_def)

lemma recentHistory_idem: "recentHistory (recentHistory h) = recentHistory h"
  by (simp add: recentHistory_def MAX_HISTORY_MESSAGES_def)

lemma recentHistory_suffix: "\<exists>older. h = older @ recentHistory h"
  unfolding recentHistory_def
  by (rule exI [of _ "take (length h - MAX_HISTORY_MESSAGES) h"]) simp

lemma prompt_window: "prompt userMessage h = prompt userMessage (recentHistory h)"
  by (simp add: prompt_def historyText_def recentHistory_idem)

lemma generateReply_window:
  "generateReply model userMessage h = generateReply model userMessage (recentHistory h)"
  unfolding generateReply_def generateReply_try_def
  using prompt_window [of "truncated userMessage" h] by simp

lemma recentHistory_sorted:
  "sorted (map m_timestamp (recentHistory (getMessages db cid)))"
proof -
  have "sorted (map m_timestamp (getMessages db cid))"
    by (simp add: getMessages_def)
  then have "sorted (drop (length (getMessages db cid) - MAX_HISTORY_MESSAGES)
                 (map m_timestamp (getMessages db cid)))"
    by (rule sorted_wrt_drop)
  then show ?thesis by (simp add: recentHistory_def drop_map)
qed

text \<open>
  C4, as stated, fails: the handler of \<^verbatim>\<open>POST /chat/message\<close> passes the whole result
  of \<^verbatim>\<open>getMessages\<close> to the generator. On a conversation that holds ten messages the
  generator is called with eleven.
\<close>

theorem post_message_passes_unwindowed_history:
  "snd (post_message sessionIdRegex_test historyLengthProbe
          \<lparr>conv_uuid = ''c1'', conv_now = ''t90'', user_uuid = ''m10'', user_now = ''t91'',
           ai_uuid = ''m11'', ai_now = ''t92''\<rparr>
          tenMessageStore
          (Object (Str ''hi'') (Str ''123e4567-e89b-12d3-a456-426614174000'')))
   = (200, ChatReply ''more than 10 messages'' ''123e4567-e89b-12d3-a456-426614174000'')"
  by (simp add: post_message_def messageSchema_def sessionIdRegex_test_def isHexDigit_def
      enumerate_eq_zip tenMessageStore_def getOrCreateConversation_def getConversation_def
      addMessage_def getMessages_def historyLengthProbe_def Let_def)

lemma join_contains:
  "x \<in> set xs \<Longrightarrow> \<exists>before after. join sep xs = before @ x @ after"
proof (induction sep xs rule: join.induct)
  case (1 sep)
  then show ?case by simp
next
  case (2 sep y)
  then have "join sep [y] = [] @ x @ []" by simp
  then show ?case by blast
next
  case (3 sep y z zs)
  show ?case
  proof (cases "x = y")
    case True
    then have "join sep (y # z # zs) = [] @ x @ (sep @ join sep (z # zs))" by simp
    then show ?thesis by blast
  next
    case False
    then have "x \<in> set (z # zs)" using "3.prems" by simp
    then obtain before after where "join sep (z # zs) = before @ x @ after"
      using "3.IH" by blast
    then have "join sep (y # z # zs) = (y @ sep @ before) @ x @ after" by simp
    then show ?thesis by blast
  qed
qed

lemma join_ends:
  "xs \<noteq> [] \<Longrightarrow> \<exists>before. join sep xs = before @ last xs"
proof (induction sep xs rule: join.induct)
  case (1 sep)
  then show ?case by simp
next
  case (2 sep y)
  then show ?case by simp
next
  case (3 sep y z zs)
  then obtain before where "join sep (z # zs) = before @ last (z # zs)" by blast
  then have "join sep (y # z # zs) = (y @ sep @ before) @ last (y # z # zs)" by simp
  then show ?case by blast
qed

lemma renderTurn_user:
  "m_sender msg = User \<Longrightarrow> renderTurn msg = ''Customer: '' @ m_text msg"
  by (simp add: renderTurn_def)

lemma prompt_contains_twice:
  assumes "msg \<in> set (recentHistory h)" and "m_sender msg = User" and "m_text msg = userMessage"
  shows "\<exists>before after. prompt userMessage h =
     DOMAIN_KNOWLEDGE @ ''\<newline>\<newline>Previous conversation:\<newline>'' @
     before @ ''Customer: '' @ userMessage @ after @
     ''\<newline>\<newline>Customer: '' @ userMessage @ ''\<newline>Support Agent:''"
proof -
  have "renderTurn msg \<in> set (map renderTurn (recentHistory h))"
    using assms(1) by simp
  then obtain before after where
    "historyText h = before @ renderTurn msg @ after"
    unfolding historyText_def using join_contains by blast
  then have ht: "historyText h = before @ ''Customer: '' @ userMessage @ after"
    using renderTurn_user [OF assms(2)] assms(3) by simp
  then have "historyText h \<noteq> []" by simp
  then have "prompt userMessage h =
     DOMAIN_KNOWLEDGE @ ''\<newline>\<newline>Previous conversation:\<newline>'' @
     before @ ''Customer: '' @ userMessage @ after @
     ''\<newline>\<newline>Customer: '' @ userMessage @ ''\<newline>Support Agent:''"
    unfolding prompt_def using ht by simp
  then show ?thesis by blast
qed

lemma recentHistory_last:
  assumes "h \<noteq> []"
  shows "recentHistory h \<noteq> [] \<and> last (recentHistory h) = last h"
proof -
  have "0 < length h" using assms by simp
  then have "length h - 10 < length h" by arith
  then show ?thesis by (simp add: recentHistory_def MAX_HISTORY_MESSAGES_def)
qed

lemma prompt_ends_twice:
  assumes "h \<noteq> []" and "m_sender (last h) = User" and "m_text (last h) = userMessage"
  shows "\<exists>before. prompt userMessage h =
     DOMAIN_KNOWLEDGE @ ''\<newline>\<newline>Previous conversation:\<newline>'' @
     before @ ''Customer: '' @ userMessage @
     ''\<newline>\<newline>Customer: '' @ userMessage @ ''\<newline>Support Agent:''"
proof -
  have ne: "map renderTurn (recentHistory h) \<noteq> []"
    using recentHistory_last [OF assms(1)] by simp
  have "last (map renderTurn (recentHistory h)) = renderTurn (last h)"
    using recentHistory_last [OF assms(1)] by (simp add: last_map)
  then obtain before where "historyText h = before @ renderTurn (last h)"
    unfolding historyText_def using join_ends [OF ne] by metis
  then have ht: "historyText h = before @ ''Customer: '' @ userMessage"
    using renderTurn_user [OF assms(2)] assms(3) by simp
  then have "historyText h \<noteq> []" by simp
  then have "prompt userMessage h =
     DOMAIN_KNOWLEDGE @ ''\<newline>\<newline>Previous conversation:\<newline>'' @
     before @ ''Customer: '' @ userMessage @
     ''\<newline>\<newline>Customer: '' @ userMessage @ ''\<newline>Support Agent:''"
    unfolding prompt_def using ht by simp
  then show ?thesis by blast
qed

lemma insort_key_keeps_last:
  "zs \<noteq> [] \<Longrightarrow> f y \<le> f (last zs) \<Longrightarrow> last (insort_key f y zs) = last zs"
  by (induction zs) auto

lemma insort_key_not_Nil: "insort_key f y zs \<noteq> []"
  by (cases zs) auto

lemma foldr_insort_keeps_last:
  "zs \<noteq> [] \<Longrightarrow> \<forall>y \<in> set xs. f y \<le> f (last zs) \<Longrightarrow>
   foldr (insort_key f) xs zs \<noteq> [] \<and> last (foldr (insort_key f) xs zs) = last zs"
  by (induction xs) (auto simp: insort_key_keeps_last insort_key_not_Nil)

lemma sort_key_snoc_last:
  assumes "\<forall>y \<in> set xs. f y \<le> f x"
  shows "sort_key f (xs @ [x]) \<noteq> [] \<and> last (sort_key f (xs @ [x])) = x"
  using foldr_insort_keeps_last [of "[x]" xs f] assms by (simp add: sort_key_def)

lemma getMessages_last_new:
  assumes "\<forall>m \<in> set (messages db). m_timestamp m \<le> m_timestamp row"
    and "m_conversationId row = cid"
  shows "getMessages (db\<lparr>messages := messages db @ [row]\<rparr>) cid \<noteq> []
       \<and> last (getMessages (db\<lparr>messages := messages db @ [row]\<rparr>) cid) = row"
  using sort_key_snoc_last [of "filter (\<lambda>m. m_conversationId m = cid) (messages db)" m_timestamp row]
    assms by (simp add: getMessages_def)

lemma getMessages_mem_new:
  "m_conversationId row = cid \<Longrightarrow> row \<in> set (getMessages (db\<lparr>messages := messages db @ [row]\<rparr>) cid)"
  by (simp add: getMessages_def)


lemma messageSchema_Some_length:
  "messageSchema zod_uuid body = Some (message, sessionId) \<Longrightarrow>
   1 \<le> length message \<and> length message \<le> 2000"
  by (auto simp: messageSchema_def split: RequestBody.splits JsValue.splits if_splits)

text \<open>
  C10. The handler stores the user's message before it reads the history, so for a
  validated request the history given to the generator contains the row of the current
  message, and the message is sent uncut. Whenever the window of the last 10 messages
  includes that row, the prompt holds the line \<^verbatim>\<open>Customer: <message>\<close> twice: in the
  rendered history and as the final Customer line. When no stored message has a later
  timestamp than the new row, the row is the last of the history, hence in the window,
  and the prompt ends with the line, an empty line, the line again and
  \<^verbatim>\<open>Support Agent:\<close>. With an API key and a message that is not blank, this prompt is
  what the provider is called with.
\<close>

theorem post_message_prompt_repeats_message:
  assumes "messageSchema zod_uuid body = Some (message, sessionId)"
    and "conv_uuid env \<notin> set (map c_id (conversations db))"
    and "user_uuid env \<notin> set (map m_id (messages db))"
    and "ai_uuid env \<notin> set (map m_id (messages db))"
    and "ai_uuid env \<noteq> user_uuid env"
  shows "\<exists>db' cid userRow history.
      post_message zod_uuid (llmService_generateReply apiKey model) env db body
        = (db', 200,
           ChatReply (case llmService_generateReply apiKey model message history of
                        Inr generated \<Rightarrow> generated | Inl _ \<Rightarrow> fallbackReply) cid)
    \<and> userRow = \<lparr>m_id = user_uuid env, m_conversationId = cid, m_sender = User,
                  m_text = message, m_timestamp = user_now env\<rparr>
    \<and> history = getMessages (db\<lparr>messages := messages db @ [userRow]\<rparr>) cid
    \<and> userRow \<in> set history
    \<and> truncated message = message
    \<and> (apiKey \<noteq> None \<and> apiKey \<noteq> Some [] \<and> trim message \<noteq> [] \<longrightarrow>
         llmService_generateReply apiKey model message history =
           (case model (prompt message history) of
              Throws e \<Rightarrow> Inl (generateReply_catch e)
            | Responds t \<Rightarrow>
                if trim t = [] then Inl (Error ''Empty response from LLM'') else Inr (trim t)))
    \<and> (userRow \<in> set (recentHistory history) \<longrightarrow>
         (\<exists>before after. prompt message history =
            DOMAIN_KNOWLEDGE @ ''\<newline>\<newline>Previous conversation:\<newline>'' @
            before @ ''Customer: '' @ message @ after @
            ''\<newline>\<newline>Customer: '' @ message @ ''\<newline>Support Agent:''))
    \<and> ((\<forall>m \<in> set (messages db). m_timestamp m \<le> user_now env) \<longrightarrow>
         last history = userRow \<and> userRow \<in> set (recentHistory history) \<and>
         (\<exists>before. prompt message history =
            DOMAIN_KNOWLEDGE @ ''\<newline>\<newline>Previous conversation:\<newline>'' @
            before @ ''Customer: '' @ message @
            ''\<newline>\<newline>Customer: '' @ message @ ''\<newline>Support Agent:''))"
proof -
  let ?llm = "llmService_generateReply apiKey model"
  obtain db3 cid userRow history aiReply where
    res: "post_message zod_uuid ?llm env db body = (db3, 200, ChatReply aiReply cid)"
    and row: "userRow = \<lparr>m_id = user_uuid env, m_conversationId = cid, m_sender = User,
                  m_text = message, m_timestamp = user_now env\<rparr>"
    and hist: "history = sort_key m_timestamp
                  (filter (\<lambda>m. m_conversationId m = cid) (messages db @ [userRow]))"
    and reply: "aiReply = (case ?llm message history of Inr generated \<Rightarrow> generated | Inl _ \<Rightarrow> fallbackReply)"
    using post_message_valid [OF assms, of ?llm] by blast
  have hist': "history = getMessages (db\<lparr>messages := messages db @ [userRow]\<rparr>) cid"
    using hist by (simp add: getMessages_def)
  have rc: "m_conversationId userRow = cid" and rs: "m_sender userRow = User"
    and rt: "m_text userRow = message" and rts: "m_timestamp userRow = user_now env"
    using row by simp_all
  have mem: "userRow \<in> set history"
    unfolding hist' using rc by (rule getMessages_mem_new)
  have trunc: "truncated message = message"
    using messageSchema_Some_length [OF assms(1)]
    by (simp add: truncated_def MAX_MESSAGE_LENGTH_def)
  have sent: "apiKey \<noteq> None \<and> apiKey \<noteq> Some [] \<and> trim message \<noteq> [] \<longrightarrow>
         ?llm message history =
           (case model (prompt message history) of
              Throws e \<Rightarrow> Inl (generateReply_catch e)
            | Responds t \<Rightarrow>
                if trim t = [] then Inl (Error ''Empty response from LLM'') else Inr (trim t))"
    using generateReply_sent [of message model history] trunc
    by (simp add: llmService_generateReply_def)
  have twice: "userRow \<in> set (recentHistory history) \<longrightarrow>
         (\<exists>before after. prompt message history =
            DOMAIN_KNOWLEDGE @ ''\<newline>\<newline>Previous conversation:\<newline>'' @
            before @ ''Customer: '' @ message @ after @
            ''\<newline>\<newline>Customer: '' @ message @ ''\<newline>Support Agent:'')"
    using prompt_contains_twice [of userRow history message] rs rt by blast
  have ends: "(\<forall>m \<in> set (messages db). m_timestamp m \<le> user_now env) \<longrightarrow>
         last history = userRow \<and> userRow \<in> set (recentHistory history) \<and>
         (\<exists>before. prompt message history =
            DOMAIN_KNOWLEDGE @ ''\<newline>\<newline>Previous conversation:\<newline>'' @
            before @ ''Customer: '' @ message @
            ''\<newline>\<newline>Customer: '' @ message @ ''\<newline>Support Agent:'')"
  proof
    assume "\<forall>m \<in> set (messages db). m_timestamp m \<le> user_now env"
    then have le: "\<forall>m \<in> set (messages db). m_timestamp m \<le> m_timestamp userRow"
      using rts by simp
    have ne: "history \<noteq> []" and last: "last history = userRow"
      unfolding hist' using getMessages_last_new [OF le rc] by simp_all
    have "last (recentHistory history) = userRow" and "recentHistory history \<noteq> []"
      using recentHistory_last [OF ne] last by simp_all
    then have inw: "userRow \<in> set (recentHistory history)"
      using last_in_set by metis
    have "\<exists>before. prompt message history =
            DOMAIN_KNOWLEDGE @ ''\<newline>\<newline>Previous conversation:\<newline>'' @
            before @ ''Customer: '' @ message @
            ''\<newline>\<newline>Customer: '' @ message @ ''\<newline>Support Agent:''"
      using prompt_ends_twice [OF ne, of message] last rs rt by simp
    then show "last history = userRow \<and> userRow \<in> set (recentHistory history) \<and>
         (\<exists>before. prompt message history =
            DOMAIN_KNOWLEDGE @ ''\<newline>\<newline>Previous conversation:\<newline>'' @
            before @ ''Customer: '' @ message @
            ''\<newline>\<newline>Customer: '' @ message @ ''\<newline>Support Agent:'')"
      using last inw by blast
  qed
  have res': "post_message zod_uuid ?llm env db body
        = (db3, 200,
           ChatReply (case ?llm message history of
                        Inr generated \<Rightarrow> generated | Inl _ \<Rightarrow> fallbackReply) cid)"
    using res reply by simp
  show ?thesis
    apply (rule exI [of _ db3], rule exI [of _ cid], rule exI [of _ userRow], rule exI [of _ history])
    using res' row hist' mem trunc sent twice ends by blast
qed

theorem post_message_prompt_repeats_message_witness:
  "snd (post_message sessionIdRegex_test (llmService_generateReply (Some ''key'') (\<lambda>p. Responds '' Hello ''))
     \<lparr>conv_uuid = ''c1'', conv_now = ''t1'', user_uuid = ''m1'', user_now = ''t2'',
      ai_uuid = ''m2'', ai_now = ''t3''\<rparr>
     emptyDatabase (Object (Str ''hi'') Undefined))
   = (200, ChatReply ''Hello'' ''c1'')
   \<and> prompt ''hi''
        [\<lparr>m_id = ''m1'', m_conversationId = ''c1'', m_sender = User, m_text = ''hi'',
          m_timestamp = ''t2''\<rparr>]
     = DOMAIN_KNOWLEDGE @ ''\<newline>\<newline>Previous conversation:\<newline>'' @
       ''Customer: hi'' @ ''\<newline>\<newline>Customer: hi'' @ ''\<newline>Support Agent:''"
proof -
  have t: "trim ''hi'' = ''hi''" "trim '' Hello '' = ''Hello''"
    by (simp_all add: trim_def isWhiteSpace_def)
  have p: "prompt ''hi''
        [\<lparr>m_id = ''m1'', m_conversationId = ''c1'', m_sender = User, m_text = ''hi'',
          m_timestamp = ''t2''\<rparr>]
     = DOMAIN_KNOWLEDGE @ ''\<newline>\<newline>Previous conversation:\<newline>'' @
       ''Customer: hi'' @ ''\<newline>\<newline>Customer: hi'' @ ''\<newline>Support Agent:''"
    by (simp add: prompt_def historyText_def recentHistory_def renderTurn_def
        MAX_HISTORY_MESSAGES_def)
  have g: "generateReply (\<lambda>p. Responds '' Hello '') ''hi'' h = Inr ''Hello''" for h
    using generateReply_sent [of "''hi''" "\<lambda>p. Responds '' Hello ''" h] t by simp
  show ?thesis
    using post_message_prompt_repeats_message
      [of sessionIdRegex_test "Object (Str ''hi'') Undefined" "''hi''" None
          "\<lparr>conv_uuid = ''c1'', conv_now = ''t1'', user_uuid = ''m1'', user_now = ''t2'',
            ai_uuid = ''m2'', ai_now = ''t3''\<rparr>"
          emptyDatabase "Some ''key''" "\<lambda>p. Responds '' Hello ''"] p
    by (simp add: messageSchema_def emptyDatabase_def post_message_def getOrCreateConversation_def
        createConversation_def addMessage_def getMessages_def llmService_generateReply_def g Let_def)
qed

lemma recentHistory_rev_take: "recentHistory h = rev (take 10 (rev h))"
  by (simp add: recentHistory_def MAX_HISTORY_MESSAGES_def take_rev)

lemma renderTurn_not_Nil: "renderTurn msg \<noteq> []"
  by (simp add: renderTurn_def Let_def)

lemma historyText_not_Nil:
  assumes "h \<noteq> []"
  shows "historyText h \<noteq> []"
proof -
  have ne: "map renderTurn (recentHistory h) \<noteq> []"
    using recentHistory_last [OF assms] by simp
  then obtain before where
    "historyText h = before @ last (map renderTurn (recentHistory h))"
    unfolding historyText_def using join_ends by blast
  moreover have "last (map renderTurn (recentHistory h)) \<noteq> []"
    using ne by (simp add: last_map renderTurn_not_Nil)
  ultimately show ?thesis by simp
qed

lemma renderTurn_eq:
  "renderTurn = (\<lambda>m. (if m_sender m = User then ''Customer'' else ''Support Agent'') @ '': '' @ m_text m)"
  by (intro ext) (simp add: renderTurn_def Let_def)

text \<open>
  C4, amended. For a validated request the handler passes the whole stored history of the
  conversation to the generator: every stored message of the conversation and the new user
  row, by non-decreasing timestamp, however many they are. The cap of 10 is applied inside
  \<^verbatim>\<open>generateReply\<close>: the turns rendered into the prompt are exactly the last 10 messages
  of that history (all of them when there are fewer), oldest first, one line each, and
  for a message that is not blank that prompt is what the provider is called with.
\<close>

theorem generateReply_context_window:
  assumes "messageSchema zod_uuid body = Some (message, sessionId)"
    and "conv_uuid env \<notin> set (map c_id (conversations db))"
    and "user_uuid env \<notin> set (map m_id (messages db))"
    and "ai_uuid env \<notin> set (map m_id (messages db))"
    and "ai_uuid env \<noteq> user_uuid env"
  shows "\<exists>db' cid userRow history window.
      post_message zod_uuid llm env db body
        = (db', 200,
           ChatReply (case llm message history of
                        Inr generated \<Rightarrow> generated | Inl _ \<Rightarrow> fallbackReply) cid)
    \<and> userRow = \<lparr>m_id = user_uuid env, m_conversationId = cid, m_sender = User,
                  m_text = message, m_timestamp = user_now env\<rparr>
    \<and> history = getMessages (db\<lparr>messages := messages db @ [userRow]\<rparr>) cid
    \<and> mset history = mset (messagesOf db cid) + {#userRow#}
    \<and> length history = length (messagesOf db cid) + 1
    \<and> sorted (map m_timestamp history)
    \<and> window = rev (take 10 (rev history))
    \<and> length window = min 10 (length history)
    \<and> (\<exists>older. history = older @ window)
    \<and> sorted (map m_timestamp window)
    \<and> historyText history =
          join ''\<newline>''
            (map (\<lambda>m. (if m_sender m = User then ''Customer'' else ''Support Agent'')
                        @ '': '' @ m_text m) window)
    \<and> prompt message history =
          DOMAIN_KNOWLEDGE @ ''\<newline>\<newline>Previous conversation:\<newline>'' @
          historyText history @
          ''\<newline>\<newline>Customer: '' @ message @ ''\<newline>Support Agent:''
    \<and> (trim message \<noteq> [] \<longrightarrow>
         generateReply model message history =
           (case model (prompt message history) of
              Throws e \<Rightarrow> Inl (generateReply_catch e)
            | Responds t \<Rightarrow>
                if trim t = [] then Inl (Error ''Empty response from LLM'') else Inr (trim t)))"
proof -
  obtain db3 cid userRow history aiReply where
    res: "post_message zod_uuid llm env db body = (db3, 200, ChatReply aiReply cid)"
    and row: "userRow = \<lparr>m_id = user_uuid env, m_conversationId = cid, m_sender = User,
                  m_text = message, m_timestamp = user_now env\<rparr>"
    and hist: "history = sort_key m_timestamp
                  (filter (\<lambda>m. m_conversationId m = cid) (messages db @ [userRow]))"
    and reply: "aiReply = (case llm message history of Inr generated \<Rightarrow> generated | Inl _ \<Rightarrow> fallbackReply)"
    using post_message_valid [OF assms, of llm] by blast
  let ?window = "rev (take 10 (rev history))"
  have rc: "m_conversationId userRow = cid" using row by simp
  have res': "post_message zod_uuid llm env db body
        = (db3, 200,
           ChatReply (case llm message history of
                        Inr generated \<Rightarrow> generated | Inl _ \<Rightarrow> fallbackReply) cid)"
    using res reply by simp
  have hist': "history = getMessages (db\<lparr>messages := messages db @ [userRow]\<rparr>) cid"
    using hist by (simp add: getMessages_def)
  have ms: "mset history = mset (messagesOf db cid) + {#userRow#}"
    using hist rc by (simp add: messagesOf_def)
  have "length history = size (mset history)" by simp
  then have len: "length history = length (messagesOf db cid) + 1"
    unfolding ms by simp
  have srt: "sorted (map m_timestamp history)"
    using hist by simp
  have w: "recentHistory history = ?window"
    by (rule recentHistory_rev_take)
  have wl: "length ?window = min 10 (length history)"
    by simp
  have suf: "\<exists>older. history = older @ ?window"
    using recentHistory_suffix [of history] w by simp
  have "sorted (drop (length history - MAX_HISTORY_MESSAGES) (map m_timestamp history))"
    using srt by (rule sorted_wrt_drop)
  then have "sorted (map m_timestamp (recentHistory history))"
    by (simp add: recentHistory_def drop_map)
  then have ws: "sorted (map m_timestamp ?window)"
    using w by simp
  have ht: "historyText history =
          join ''\<newline>''
            (map (\<lambda>m. (if m_sender m = User then ''Customer'' else ''Support Agent'')
                        @ '': '' @ m_text m) ?window)"
    unfolding historyText_def w renderTurn_eq by (rule refl)
  have ne: "history \<noteq> []" using len by auto
  have pr: "prompt message history =
          DOMAIN_KNOWLEDGE @ ''\<newline>\<newline>Previous conversation:\<newline>'' @
          historyText history @
          ''\<newline>\<newline>Customer: '' @ message @ ''\<newline>Support Agent:''"
    using historyText_not_Nil [OF ne] by (simp add: prompt_def)
  have trunc: "truncated message = message"
    using messageSchema_Some_length [OF assms(1)]
    by (simp add: truncated_def MAX_MESSAGE_LENGTH_def)
  have sent: "trim message \<noteq> [] \<longrightarrow>
         generateReply model message history =
           (case model (prompt message history) of
              Throws e \<Rightarrow> Inl (generateReply_catch e)
            | Responds t \<Rightarrow>
                if trim t = [] then Inl (Error ''Empty response from LLM'') else Inr (trim t))"
    using generateReply_sent [of message model history] trunc by simp
  show ?thesis
    apply (rule exI [of _ db3], rule exI [of _ cid], rule exI [of _ userRow])
    apply (rule exI [of _ history], rule exI [of _ ?window])
    using res' row hist' ms len srt wl suf ws ht pr sent by blast
qed


theorem generateReply_context_window_witness:
  "snd (post_message sessionIdRegex_test
          (llmService_generateReply (Some ''key'') (\<lambda>p. Responds ''ok''))
          \<lparr>conv_uuid = ''c1'', conv_now = ''t90'', user_uuid = ''m10'', user_now = ''t91'',
           ai_uuid = ''m11'', ai_now = ''t92''\<rparr>
          tenMessageStore
          (Object (Str ''hi'') (Str ''123e4567-e89b-12d3-a456-426614174000'')))
   = (200, ChatReply ''ok'' ''123e4567-e89b-12d3-a456-426614174000'')
   \<and> length (getMessages
         (tenMessageStore\<lparr>messages := messages tenMessageStore @
            [\<lparr>m_id = ''m10'', m_conversationId = ''123e4567-e89b-12d3-a456-426614174000'',
              m_sender = User, m_text = ''hi'', m_timestamp = ''t91''\<rparr>]\<rparr>)
         ''123e4567-e89b-12d3-a456-426614174000'') = 11
   \<and> historyText (getMessages
         (tenMessageStore\<lparr>messages := messages tenMessageStore @
            [\<lparr>m_id = ''m10'', m_conversationId = ''123e4567-e89b-12d3-a456-426614174000'',
              m_sender = User, m_text = ''hi'', m_timestamp = ''t91''\<rparr>]\<rparr>)
         ''123e4567-e89b-12d3-a456-426614174000'')
     = ''Support Agent: #1\<newline>Customer: #2\<newline>Support Agent: #3\<newline>Customer: #4\<newline>Support Agent: #5\<newline>Customer: #6\<newline>Support Agent: #7\<newline>Customer: #8\<newline>Support Agent: #9\<newline>Customer: hi''"
proof -
  have t: "trim ''hi'' = ''hi''" "trim ''ok'' = ''ok''"
    by (simp_all add: trim_def isWhiteSpace_def)
  have g: "generateReply (\<lambda>p. Responds ''ok'') ''hi'' h = Inr ''ok''" for h
    using generateReply_sent [of "''hi''" "\<lambda>p. Responds ''ok''" h] t by simp
  let ?env = "\<lparr>conv_uuid = ''c1'', conv_now = ''t90'', user_uuid = ''m10'', user_now = ''t91'',
            ai_uuid = ''m11'', ai_now = ''t92''\<rparr>"
  let ?body = "Object (Str ''hi'') (Str ''123e4567-e89b-12d3-a456-426614174000'')"
  let ?llm = "llmService_generateReply (Some ''key'') (\<lambda>p. Responds ''ok'')"
  have valid: "messageSchema sessionIdRegex_test ?body
                 = Some (''hi'', Some ''123e4567-e89b-12d3-a456-426614174000'')"
    by (simp add: messageSchema_def sessionIdRegex_test_def isHexDigit_def enumerate_eq_zip)
  have f1: "conv_uuid ?env \<notin> set (map c_id (conversations tenMessageStore))"
    and f2: "user_uuid ?env \<notin> set (map m_id (messages tenMessageStore))"
    and f3: "ai_uuid ?env \<notin> set (map m_id (messages tenMessageStore))"
    and f4: "ai_uuid ?env \<noteq> user_uuid ?env"
    by (simp_all add: tenMessageStore_def)
  have run: "snd (post_message sessionIdRegex_test ?llm ?env tenMessageStore ?body)
      = (200, ChatReply ''ok'' ''123e4567-e89b-12d3-a456-426614174000'')"
    using valid
    by (simp add: post_message_def tenMessageStore_def getOrCreateConversation_def
        getConversation_def addMessage_def llmService_generateReply_def g Let_def)
  have hist: "getMessages
         (tenMessageStore\<lparr>messages := messages tenMessageStore @
            [\<lparr>m_id = ''m10'', m_conversationId = ''123e4567-e89b-12d3-a456-426614174000'',
              m_sender = User, m_text = ''hi'', m_timestamp = ''t91''\<rparr>]\<rparr>)
         ''123e4567-e89b-12d3-a456-426614174000''
      = messages tenMessageStore @
            [\<lparr>m_id = ''m10'', m_conversationId = ''123e4567-e89b-12d3-a456-426614174000'',
              m_sender = User, m_text = ''hi'', m_timestamp = ''t91''\<rparr>]"
    by (simp add: getMessages_def tenMessageStore_def)
  have len: "length (messages tenMessageStore) = 10"
    by (simp add: tenMessageStore_def)
  have rendered: "historyText (messages tenMessageStore @
            [\<lparr>m_id = ''m10'', m_conversationId = ''123e4567-e89b-12d3-a456-426614174000'',
              m_sender = User, m_text = ''hi'', m_timestamp = ''t91''\<rparr>])
     = ''Support Agent: #1\<newline>Customer: #2\<newline>Support Agent: #3\<newline>Customer: #4\<newline>Support Agent: #5\<newline>Customer: #6\<newline>Support Agent: #7\<newline>Customer: #8\<newline>Support Agent: #9\<newline>Customer: hi''"
    by (simp add: historyText_def recentHistory_def MAX_HISTORY_MESSAGES_def renderTurn_def
        tenMessageStore_def Let_def)
  have concrete: ?thesis
    unfolding hist using run rendered len by simp
  show ?thesis
    using generateReply_context_window [OF valid f1 f2 f3 f4, of ?llm "\<lambda>p. Responds ''ok''"]
    by - (rule concrete)
qed

section \<open>The invariant of \<^verbatim>\<open>updatedAt\<close>\<close>

lemma addMessage_Inr:
  assumes "addMessage uuid ts db cid sender txt = Inr (db', row)"
  shows "cid \<in> set (map c_id (conversations db))"
    and "row = \<lparr>m_id = uuid, m_conversationId = cid, m_sender = sender, m_text = txt,
                 m_timestamp = ts\<rparr>"
    and "messages db' = messages db @ [row]"
    and "conversations db' =
           map (\<lambda>c. if c_id c = cid then c\<lparr>c_updatedAt := ts\<rparr> else c) (conversations db)"
  using assms by (auto simp: addMessage_def Let_def split: if_splits)

lemma createConversation_Inr:
  assumes "createConversation uuid now db = Inr (db', row)"
  shows "uuid \<notin> set (map c_id (conversations db))"
    and "row = \<lparr>c_id = uuid, c_createdAt = now, c_updatedAt = now\<rparr>"
    and "messages db' = messages db"
    and "conversations db' = conversations db @ [row]"
  using assms by (auto simp: createConversation_def Let_def split: if_splits)

lemma find_updated:
  "find (\<lambda>c. c_id c = cid) (map (\<lambda>c. if c_id c = cid then c\<lparr>c_updatedAt := ts\<rparr> else c) cs)
   = map_option (\<lambda>c. c\<lparr>c_updatedAt := ts\<rparr>) (find (\<lambda>c. c_id c = cid) cs)"
  by (induction cs) auto

lemma updated_rows:
  "c \<in> set (map (\<lambda>c. if c_id c = cid then c\<lparr>c_updatedAt := ts\<rparr> else c) cs) \<Longrightarrow>
   c_id c = cid \<Longrightarrow> c_updatedAt c = ts"
proof -
  assume mem: "c \<in> set (map (\<lambda>c. if c_id c = cid then c\<lparr>c_updatedAt := ts\<rparr> else c) cs)"
    and eq: "c_id c = cid"
  have "c \<in> (\<lambda>c. if c_id c = cid then c\<lparr>c_updatedAt := ts\<rparr> else c) ` set cs"
    using mem by (simp only: set_map)
  then obtain a where a: "c = (if c_id a = cid then a\<lparr>c_updatedAt := ts\<rparr> else a)"
    by (rule imageE)
  show ?thesis
  proof (cases "c_id a = cid")
    case True
    have "c = a\<lparr>c_updatedAt := ts\<rparr>" using a True by simp
    then show ?thesis by simp
  next
    case False
    have "c = a" using a False by simp
    then show ?thesis using eq False by simp
  qed
qed

lemma addMessage_updates_parent:
  assumes "addMessage uuid ts db cid sender txt = Inr (db', row)"
  shows "m_timestamp row = ts
       \<and> (\<exists>c. getConversation db' cid = Some c \<and> c_updatedAt c = m_timestamp row)
       \<and> (\<forall>c \<in> set (conversations db'). c_id c = cid \<longrightarrow> c_updatedAt c = m_timestamp row)"
proof -
  note f = addMessage_Inr [OF assms]
  have ts: "m_timestamp row = ts" using f(2) by simp
  obtain c0 where c0: "getConversation db cid = Some c0"
    using f(1) getConversation_None_iff [of db cid] by (cases "getConversation db cid") auto
  have "getConversation db' cid = Some (c0\<lparr>c_updatedAt := ts\<rparr>)"
    using c0 unfolding getConversation_def f(4) find_updated by simp
  then have 1: "\<exists>c. getConversation db' cid = Some c \<and> c_updatedAt c = m_timestamp row"
    using ts by simp
  have 2: "\<forall>c \<in> set (conversations db'). c_id c = cid \<longrightarrow> c_updatedAt c = m_timestamp row"
    unfolding f(4) using ts updated_rows [of _ cid ts "conversations db"] by blast
  show ?thesis using ts 1 2 by blast
qed


lemma perform_cases:
  "perform db call = db
   \<or> (\<exists>uuid now. call = CreateConversation uuid now
         \<and> uuid \<notin> set (map c_id (conversations db))
         \<and> perform db call = db\<lparr>conversations := conversations db @
               [\<lparr>c_id = uuid, c_createdAt = now, c_updatedAt = now\<rparr>]\<rparr>)
   \<or> (\<exists>uuid now cid sender txt. call = AddMessage uuid now cid sender txt
         \<and> cid \<in> set (map c_id (conversations db))
         \<and> perform db call = db\<lparr>messages := messages db @
               [\<lparr>m_id = uuid, m_conversationId = cid, m_sender = sender, m_text = txt,
                 m_timestamp = now\<rparr>],
              conversations :=
                map (\<lambda>c. if c_id c = cid then c\<lparr>c_updatedAt := now\<rparr> else c) (conversations db)\<rparr>)"
proof (cases call)
  case (CreateConversation uuid now)
  then show ?thesis by (simp add: createConversation_def Let_def)
next
  case (AddMessage u n c s t)
  then show ?thesis by (simp add: addMessage_def Let_def)
qed

lemma c_id_updated:
  "c_id (if c_id c = cid then c\<lparr>c_updatedAt := ts\<rparr> else c) = c_id c"
  by simp

lemma ids_updated:
  "c_id ` (\<lambda>c. if c_id c = cid then c\<lparr>c_updatedAt := ts\<rparr> else c) ` set cs = c_id ` set cs"
  by (simp only: image_image c_id_updated)

lemma referentialIntegrity_create:
  "referentialIntegrity db \<Longrightarrow>
   referentialIntegrity (db\<lparr>conversations := conversations db @ [row]\<rparr>)"
  by (auto simp: referentialIntegrity_def)

lemma referentialIntegrity_add:
  assumes "referentialIntegrity db" and "cid \<in> set (map c_id (conversations db))"
    and "m_conversationId row = cid"
  shows "referentialIntegrity (db\<lparr>messages := messages db @ [row],
            conversations :=
              map (\<lambda>c. if c_id c = cid then c\<lparr>c_updatedAt := ts\<rparr> else c) (conversations db)\<rparr>)"
  using assms ids_updated [of cid ts "conversations db"]
  by (simp add: referentialIntegrity_def del: map_map)

lemma referentialIntegrity_perform:
  assumes "referentialIntegrity db"
  shows "referentialIntegrity (perform db call)"
  using perform_cases [of db call] assms
  by (elim disjE exE conjE) (simp_all add: referentialIntegrity_create referentialIntegrity_add)


lemma messagesOf_conversations_update:
  "messagesOf (db\<lparr>conversations := cs\<rparr>) cid = messagesOf db cid"
  by (simp add: messagesOf_def)

lemma messagesOf_add:
  "messagesOf (db\<lparr>messages := messages db @ [row], conversations := cs\<rparr>) cid =
     (if m_conversationId row = cid then messagesOf db cid @ [row] else messagesOf db cid)"
  by (simp add: messagesOf_def)

lemma messagesOf_unknown:
  assumes "referentialIntegrity db" and "uuid \<notin> set (map c_id (conversations db))"
  shows "messagesOf db uuid = []"
proof -
  have "\<forall>m \<in> set (messages db). m_conversationId m \<noteq> uuid"
    using assms unfolding referentialIntegrity_def by metis
  then show ?thesis by (simp add: messagesOf_def)
qed

lemma updatedAtIsLast_create:
  assumes "referentialIntegrity db" and "uuid \<notin> set (map c_id (conversations db))"
    and "updatedAtIsLast db"
  shows "updatedAtIsLast (db\<lparr>conversations := conversations db @
            [\<lparr>c_id = uuid, c_createdAt = now, c_updatedAt = now\<rparr>]\<rparr>)"
  using assms(3) messagesOf_unknown [OF assms(1,2)]
  by (auto simp: updatedAtIsLast_def messagesOf_conversations_update)

lemma updated_row_cases:
  assumes "c \<in> set (map (\<lambda>c. if c_id c = cid then c\<lparr>c_updatedAt := ts\<rparr> else c) cs)"
  shows "(c_id c = cid \<and> c_updatedAt c = ts) \<or> (c_id c \<noteq> cid \<and> c \<in> set cs)"
proof -
  have "c \<in> (\<lambda>c. if c_id c = cid then c\<lparr>c_updatedAt := ts\<rparr> else c) ` set cs"
    using assms by (simp only: set_map)
  then obtain a where a: "a \<in> set cs"
    and c: "c = (if c_id a = cid then a\<lparr>c_updatedAt := ts\<rparr> else a)"
    by (rule imageE)
  show ?thesis
  proof (cases "c_id a = cid")
    case True
    have "c = a\<lparr>c_updatedAt := ts\<rparr>" using c True by simp
    then show ?thesis using True by simp
  next
    case False
    have "c = a" using c False by simp
    then show ?thesis using a False by simp
  qed
qed

lemma updatedAtIsLast_add:
  assumes "updatedAtIsLast db" and "m_conversationId row = cid" and "m_timestamp row = ts"
  shows "updatedAtIsLast (db\<lparr>messages := messages db @ [row],
            conversations :=
              map (\<lambda>c. if c_id c = cid then c\<lparr>c_updatedAt := ts\<rparr> else c) (conversations db)\<rparr>)"
  unfolding updatedAtIsLast_def
proof (intro ballI impI)
  let ?db = "db\<lparr>messages := messages db @ [row],
            conversations :=
              map (\<lambda>c. if c_id c = cid then c\<lparr>c_updatedAt := ts\<rparr> else c) (conversations db)\<rparr>"
  fix c assume c: "c \<in> set (conversations ?db)" and ne: "messagesOf ?db (c_id c) \<noteq> []"
  from c have "c \<in> set (map (\<lambda>c. if c_id c = cid then c\<lparr>c_updatedAt := ts\<rparr> else c) (conversations db))"
    by simp
  then consider "c_id c = cid" "c_updatedAt c = ts" | "c_id c \<noteq> cid" "c \<in> set (conversations db)"
    using updated_row_cases by blast
  then show "c_updatedAt c = m_timestamp (last (messagesOf ?db (c_id c)))"
  proof cases
    case 1
    then show ?thesis using assms(2,3) by (simp add: messagesOf_add)
  next
    case 2
    then have same: "messagesOf ?db (c_id c) = messagesOf db (c_id c)"
      using assms(2) by (simp add: messagesOf_add)
    then show ?thesis using 2 ne assms(1) unfolding updatedAtIsLast_def by simp
  qed
qed

lemma updatedAtIsLast_perform:
  assumes "referentialIntegrity db" and "updatedAtIsLast db"
  shows "updatedAtIsLast (perform db call)"
  using perform_cases [of db call] assms
  by (elim disjE exE conjE) (simp_all add: updatedAtIsLast_create updatedAtIsLast_add)

lemma run_snoc: "run (calls @ [call]) = perform (run calls) call"
  by (simp add: run_def)

lemma run_invariants: "referentialIntegrity (run calls) \<and> updatedAtIsLast (run calls)"
proof (induction calls rule: rev_induct)
  case Nil
  then show ?case
    by (simp add: run_def emptyDatabase_def referentialIntegrity_def updatedAtIsLast_def)
next
  case (snoc call calls)
  then show ?case
    by (simp add: run_snoc referentialIntegrity_perform updatedAtIsLast_perform)
qed


lemma updatedAtBounds_mono:
  "updatedAtBounds T db \<Longrightarrow> T \<le> T' \<Longrightarrow> updatedAtBounds T' db"
  unfolding updatedAtBounds_def by (meson order_trans)

lemma updatedAtBounds_create:
  assumes "referentialIntegrity db" and "uuid \<notin> set (map c_id (conversations db))"
    and "updatedAtBounds T db"
  shows "updatedAtBounds T (db\<lparr>conversations := conversations db @
            [\<lparr>c_id = uuid, c_createdAt = now, c_updatedAt = now\<rparr>]\<rparr>)"
  using assms(3) messagesOf_unknown [OF assms(1,2)]
  by (auto simp: updatedAtBounds_def messagesOf_conversations_update)

lemma messagesOf_subset: "set (messagesOf db cid) \<subseteq> set (messages db)"
  by (auto simp: messagesOf_def)

lemma updatedAtBounds_add:
  assumes "updatedAtBounds T db" and "T \<le> ts"
    and "m_conversationId row = cid" and "m_timestamp row = ts"
  shows "updatedAtBounds ts (db\<lparr>messages := messages db @ [row],
            conversations :=
              map (\<lambda>c. if c_id c = cid then c\<lparr>c_updatedAt := ts\<rparr> else c) (conversations db)\<rparr>)"
proof -
  let ?db = "db\<lparr>messages := messages db @ [row],
            conversations :=
              map (\<lambda>c. if c_id c = cid then c\<lparr>c_updatedAt := ts\<rparr> else c) (conversations db)\<rparr>"
  have old: "\<forall>m \<in> set (messages db). m_timestamp m \<le> ts"
    using assms(1,2) unfolding updatedAtBounds_def by (meson order_trans)
  then have all: "\<forall>m \<in> set (messages ?db). m_timestamp m \<le> ts"
    using assms(4) by simp
  have "\<forall>c \<in> set (conversations ?db). \<forall>m \<in> set (messagesOf ?db (c_id c)).
          m_timestamp m \<le> c_updatedAt c"
  proof (intro ballI)
    fix c m assume c: "c \<in> set (conversations ?db)" and m: "m \<in> set (messagesOf ?db (c_id c))"
    from c have "c \<in> set (map (\<lambda>c. if c_id c = cid then c\<lparr>c_updatedAt := ts\<rparr> else c) (conversations db))"
      by simp
    then consider "c_id c = cid" "c_updatedAt c = ts" | "c_id c \<noteq> cid" "c \<in> set (conversations db)"
      using updated_row_cases by blast
    then show "m_timestamp m \<le> c_updatedAt c"
    proof cases
      case 1
      have "m \<in> set (messages ?db)" using m messagesOf_subset by blast
      then have "m_timestamp m \<le> ts" using all by blast
      then show ?thesis using 1 by simp
    next
      case 2
      then have "messagesOf ?db (c_id c) = messagesOf db (c_id c)"
        using assms(3) by (simp add: messagesOf_add)
      then show ?thesis using 2 m assms(1) unfolding updatedAtBounds_def by simp
    qed
  qed
  then show ?thesis using all unfolding updatedAtBounds_def by simp
qed

lemma updatedAtBounds_perform:
  assumes "referentialIntegrity db" and "updatedAtBounds T db" and "T \<le> call_time call"
  shows "updatedAtBounds (call_time call) (perform db call)"
proof -
  note b = updatedAtBounds_mono [OF assms(2,3)]
  from perform_cases [of db call] show ?thesis
  proof (elim disjE exE conjE)
    assume "perform db call = db"
    then show ?thesis using b by simp
  next
    fix uuid now
    assume "call = CreateConversation uuid now" "uuid \<notin> set (map c_id (conversations db))"
      "perform db call = db\<lparr>conversations := conversations db @
               [\<lparr>c_id = uuid, c_createdAt = now, c_updatedAt = now\<rparr>]\<rparr>"
    then show ?thesis using updatedAtBounds_create [OF assms(1) _ b] by simp
  next
    fix uuid now cid sender content
    assume "call = AddMessage uuid now cid sender content"
      "perform db call = db\<lparr>messages := messages db @
               [\<lparr>m_id = uuid, m_conversationId = cid, m_sender = sender, m_text = content,
                 m_timestamp = now\<rparr>],
              conversations :=
                map (\<lambda>c. if c_id c = cid then c\<lparr>c_updatedAt := now\<rparr> else c) (conversations db)\<rparr>"
    then show ?thesis using updatedAtBounds_add [OF assms(2), of now _ cid] assms(3) by simp
  qed
qed

lemma run_bounds:
  "sorted (map call_time calls) \<Longrightarrow>
   updatedAtBounds (if calls = [] then [] else call_time (last calls)) (run calls)"
proof (induction calls rule: rev_induct)
  case Nil
  then show ?case by (simp add: run_def emptyDatabase_def updatedAtBounds_def)
next
  case (snoc call calls)
  then have s: "sorted (map call_time calls)"
    and le: "\<forall>t \<in> set (map call_time calls). t \<le> call_time call"
    by (simp_all add: sorted_append)
  have "(if calls = [] then [] else call_time (last calls)) \<le> call_time call"
    using le by auto
  then have "updatedAtBounds (call_time call) (perform (run calls) call)"
    using updatedAtBounds_perform run_invariants snoc.IH [OF s] by blast
  then show ?case by (simp add: run_snoc)
qed

text \<open>
  C9. When \<^verbatim>\<open>addMessage\<close> completes, the message has the timestamp drawn and the
  parent conversation, looked up in the new store, has it as its \<^verbatim>\<open>updatedAt\<close>. In
  every store state reached from the empty tables by calls of \<^verbatim>\<open>createConversation\<close>
  and \<^verbatim>\<open>addMessage\<close>, the \<^verbatim>\<open>updatedAt\<close> of a conversation with messages equals, and
  so is not below, the timestamp of the message inserted last for it. When the times drawn
  by the calls never decrease, \<^verbatim>\<open>updatedAt\<close> is not below the timestamp of any message
  of the conversation.
\<close>

theorem addMessage_updatedAt_invariant:
  "(\<forall>db' row. addMessage uuid ts db cid sender txt = Inr (db', row) \<longrightarrow>
      m_timestamp row = ts
      \<and> (\<exists>c. getConversation db' cid = Some c \<and> c_updatedAt c = m_timestamp row)
      \<and> (\<forall>c \<in> set (conversations db'). c_id c = cid \<longrightarrow> c_updatedAt c = m_timestamp row))
   \<and> (\<forall>c \<in> set (conversations (run calls)). messagesOf (run calls) (c_id c) \<noteq> [] \<longrightarrow>
        c_updatedAt c = m_timestamp (last (messagesOf (run calls) (c_id c)))
        \<and> m_timestamp (last (messagesOf (run calls) (c_id c))) \<le> c_updatedAt c)
   \<and> (sorted (map call_time calls) \<longrightarrow>
        (\<forall>c \<in> set (conversations (run calls)). \<forall>m \<in> set (messagesOf (run calls) (c_id c)).
           m_timestamp m \<le> c_updatedAt c))"
proof (intro conjI)
  show "\<forall>db' row. addMessage uuid ts db cid sender txt = Inr (db', row) \<longrightarrow>
      m_timestamp row = ts
      \<and> (\<exists>c. getConversation db' cid = Some c \<and> c_updatedAt c = m_timestamp row)
      \<and> (\<forall>c \<in> set (conversations db'). c_id c = cid \<longrightarrow> c_updatedAt c = m_timestamp row)"
    using addMessage_updates_parent by blast
  show "\<forall>c \<in> set (conversations (run calls)). messagesOf (run calls) (c_id c) \<noteq> [] \<longrightarrow>
        c_updatedAt c = m_timestamp (last (messagesOf (run calls) (c_id c)))
        \<and> m_timestamp (last (messagesOf (run calls) (c_id c))) \<le> c_updatedAt c"
    using run_invariants [of calls] unfolding updatedAtIsLast_def by simp
  show "sorted (map call_time calls) \<longrightarrow>
        (\<forall>c \<in> set (conversations (run calls)). \<forall>m \<in> set (messagesOf (run calls) (c_id c)).
           m_timestamp m \<le> c_updatedAt c)"
    using run_bounds [of calls] unfolding updatedAtBounds_def by blast
qed


theorem addMessage_updatedAt_invariant_witness:
  "run [CreateConversation ''c1'' ''t1'', AddMessage ''m1'' ''t2'' ''c1'' User ''hi'']
     = \<lparr>conversations = [\<lparr>c_id = ''c1'', c_createdAt = ''t1'', c_updatedAt = ''t2''\<rparr>],
        messages = [\<lparr>m_id = ''m1'', m_conversationId = ''c1'', m_sender = User,
                     m_text = ''hi'', m_timestamp = ''t2''\<rparr>]\<rparr>
   \<and> sorted (map call_time
        [CreateConversation ''c1'' ''t1'', AddMessage ''m1'' ''t2'' ''c1'' User ''hi''])
   \<and> (\<exists>db'. addMessage ''m2'' ''t3''
          (run [CreateConversation ''c1'' ''t1'', AddMessage ''m1'' ''t2'' ''c1'' User ''hi''])
          ''c1'' Ai ''hello''
        = Inr (db', \<lparr>m_id = ''m2'', m_conversationId = ''c1'', m_sender = Ai,
                     m_text = ''hello'', m_timestamp = ''t3''\<rparr>)
        \<and> map c_updatedAt (conversations db') = [''t3''])"
  using addMessage_updatedAt_invariant
    [of "''m2''" "''t3''"
        "run [CreateConversation ''c1'' ''t1'', AddMessage ''m1'' ''t2'' ''c1'' User ''hi'']"
        "''c1''" Ai "''hello''"
        "[CreateConversation ''c1'' ''t1'', AddMessage ''m1'' ''t2'' ''c1'' User ''hi'']"]
  by (simp add: run_def emptyDatabase_def createConversation_def addMessage_def Let_def)

text \<open>
  The condition on the clock matters for the messages inserted earlier only: when the time
  drawn goes back, \<^verbatim>\<open>updatedAt\<close> is still the timestamp of the message inserted last,
  and an earlier message may carry a later timestamp.
\<close>

lemma updatedAt_after_clock_regression:
  "map c_updatedAt (conversations
     (run [CreateConversation ''c1'' ''t1'', AddMessage ''m1'' ''t3'' ''c1'' User ''a'',
           AddMessage ''m2'' ''t2'' ''c1'' Ai ''b''])) = [''t2'']
   \<and> map m_timestamp (messagesOf
     (run [CreateConversation ''c1'' ''t1'', AddMessage ''m1'' ''t3'' ''c1'' User ''a'',
           AddMessage ''m2'' ''t2'' ''c1'' Ai ''b'']) ''c1'') = [''t3'', ''t2'']"
  by (simp add: run_def emptyDatabase_def createConversation_def addMessage_def messagesOf_def
      Let_def)

end
